theory Spec2Isabelle
  imports Complex_Main
begin

section \<open>The regressor adapters of entmoot/learning/tree\_model.py\<close>

text \<open>
  The module defines two classes, \<open>EntingRegressor\<close> and its subclass \<open>MisicRegressor\<close>.
  Both wrap a tree-ensemble estimator (LightGBM's \<open>LGBMRegressor\<close>) and a distance-based
  uncertainty estimator. All numerical work happens inside these collaborators and inside
  \<open>sklearn.base.clone\<close>, \<open>order_tree_model_dict\<close> and \<open>GbmModel\<close>, none of which is part of
  the module. They are taken as parameters (the record \<open>lib\<close>); what is modelled is the
  orchestration: which collaborator is called, with which arguments, in which order, what is
  stored on the adapter, what is written to disk and which exception leaves each method.
\<close>

subsection \<open>Values\<close>

text \<open>Keyword arguments of \<open>set_params\<close>: a Python dict, kept in insertion order.\<close>

datatype pval = PNone | PInt int | PNum real | PStr string | PBool bool

type_synonym params = "(string \<times> pval) list"

type_synonym matrix = "real list list"

type_synonym vector = "real list"

text \<open>
  Exceptions. \<open>AttributeError t a\<close> is what the interpreter raises when an object of type
  \<open>t\<close> has no attribute \<open>a\<close>; \<open>OSError\<close> is raised by \<open>open\<close>. A collaborator may raise
  any exception. \<open>NotFittedError\<close> and \<open>ConfigurationError\<close> are the error kinds of the
  specification's error design; no method of the module constructs them.
\<close>

datatype exn =
    AttributeError string string
  | OSError string
  | NotFittedError
  | ConfigurationError
  | OtherError string

datatype 'a outcome = Returns 'a | Raises exn

text \<open>The two classes; \<open>MisicRegressor\<close> is declared as a subclass of \<open>EntingRegressor\<close>.\<close>

datatype cls = EntingRegressor | MisicRegressor

fun issubclass :: "cls \<Rightarrow> cls \<Rightarrow> bool" where
  "issubclass EntingRegressor EntingRegressor = True"
| "issubclass MisicRegressor EntingRegressor = True"
| "issubclass MisicRegressor MisicRegressor = True"
| "issubclass EntingRegressor MisicRegressor = False"

fun cls_name :: "cls \<Rightarrow> string" where
  "cls_name EntingRegressor = ''EntingRegressor''"
| "cls_name MisicRegressor = ''MisicRegressor''"

text \<open>
  What a \<open>base_estimator\<close> argument may be, after the class docstring: \<open>None\<close>, an external
  estimator (of state \<open>'b\<close>), or an adapter instance. An adapter has the four attributes set
  by \<open>__init__\<close> and, once \<open>fit\<close> has assigned it, the attribute \<open>regressor_\<close>
  (the selector \<open>regressor\<close>); an absent attribute is \<open>None\<close> of the option type.
  The uncertainty estimator is \<open>None\<close> or an external object of state \<open>'s\<close>.
  Attributes hold values: two adapters that hold the same estimator hold equal values, and
  a method that changes an estimator in place returns the adapter with the changed value.
\<close>

datatype ('b, 's) pyobj =
    PyNone
  | Estimator 'b
  | Instance "('b, 's) adapter"
and ('b, 's) adapter =
    Adapter (cls_of: cls)
            (base_estimator: "('b, 's) pyobj")
            (std_estimator: "'s option")
            (random_state: pval)
            (cat_idx: "int list")
            (regressor: "'b option")

fun isinstance :: "('b, 's) pyobj \<Rightarrow> cls \<Rightarrow> bool" where
  "isinstance PyNone c = False"
| "isinstance (Estimator b) c = False"
| "isinstance (Instance a) c = issubclass (cls_of a) c"

text \<open>Attribute assignment on an adapter.\<close>

fun set_base_estimator :: "('b, 's) pyobj \<Rightarrow> ('b, 's) adapter \<Rightarrow> ('b, 's) adapter" where
  "set_base_estimator v (Adapter c b s r ci reg) = Adapter c v s r ci reg"

fun set_std_estimator :: "'s option \<Rightarrow> ('b, 's) adapter \<Rightarrow> ('b, 's) adapter" where
  "set_std_estimator v (Adapter c b s r ci reg) = Adapter c b v r ci reg"

fun set_regressor :: "'b option \<Rightarrow> ('b, 's) adapter \<Rightarrow> ('b, 's) adapter" where
  "set_regressor v (Adapter c b s r ci reg) = Adapter c b s r ci v"

subsection \<open>Construction\<close>

text \<open>
  \<open>EntingRegressor.__init__\<close>: the four arguments are stored; when \<open>base_estimator\<close> is an
  instance of \<open>EntingRegressor\<close> (hence also when it is a \<open>MisicRegressor\<close>), its
  \<open>base_estimator\<close> and \<open>std_estimator\<close> replace the ones just stored.
\<close>

definition EntingRegressor_init ::
  "('b, 's) pyobj \<Rightarrow> 's option \<Rightarrow> pval \<Rightarrow> int list \<Rightarrow> ('b, 's) adapter" where
  "EntingRegressor_init base std rs ci =
     (let self = Adapter EntingRegressor base std rs ci None in
      if isinstance base EntingRegressor then
        (case base of
           Instance a \<Rightarrow> set_std_estimator (std_estimator a) (set_base_estimator (base_estimator a) self)
         | _ \<Rightarrow> self)
      else self)"

text \<open>\<open>MisicRegressor.__init__\<close>: the same text, with the test \<open>isinstance(base_estimator, MisicRegressor)\<close>.\<close>

definition MisicRegressor_init ::
  "('b, 's) pyobj \<Rightarrow> 's option \<Rightarrow> pval \<Rightarrow> int list \<Rightarrow> ('b, 's) adapter" where
  "MisicRegressor_init base std rs ci =
     (let self = Adapter MisicRegressor base std rs ci None in
      if isinstance base MisicRegressor then
        (case base of
           Instance a \<Rightarrow> set_std_estimator (std_estimator a) (set_base_estimator (base_estimator a) self)
         | _ \<Rightarrow> self)
      else self)"

subsection \<open>The collaborators and the world\<close>

text \<open>
  The calls a method makes are recorded, in order, with their arguments, as a test double
  would record them. A call is recorded when it is made, whether it returns or raises.
  \<open>Call_std_update\<close> carries the optional third positional argument of
  \<open>std_estimator.update\<close> (the exported tree model), \<open>Call_fit\<close> the optional
  \<open>categorical_feature\<close> keyword.
\<close>

datatype ('b, 's, 'd, 'g) event =
    Call_set_params 'b params
  | Call_clone "('b, 's) pyobj"
  | Call_fit 'b matrix vector "int list option"
  | Call_predict 'b matrix
  | Call_dump_model 'b
  | Call_std_update 's matrix vector "'g option" "int list"
  | Call_std_predict 's matrix bool
  | Call_order_tree_model_dict 'd "int list"
  | Call_GbmModel 'd
  | Write_file string string

record ('b, 's, 'd, 'g) world =
  calls :: "('b, 's, 'd, 'g) event list"
  files :: "string \<Rightarrow> string option"
  writable :: "string \<Rightarrow> bool"

definition record_call ::
  "('b, 's, 'd, 'g) event \<Rightarrow> ('b, 's, 'd, 'g) world \<Rightarrow> ('b, 's, 'd, 'g) world" where
  "record_call ev w = w\<lparr>calls := calls w @ [ev]\<rparr>"

text \<open>
  The collaborators. Each may raise. \<open>'d\<close> is the dictionary returned by
  \<open>_Booster.dump_model()\<close> (and by \<open>order_tree_model_dict\<close>), \<open>'g\<close> a \<open>GbmModel\<close>.
  The object returned by \<open>clone\<close> is used only through \<open>fit\<close>, \<open>predict\<close> and
  \<open>_Booster.dump_model\<close>; whatever it is (the clone of an adapter is an adapter), these
  three are taken from \<open>lib\<close>, so what is proved holds however they behave. \<open>json_dump d\<close> is the text \<open>json.dump(d, f, indent=4,
  sort_keys=False)\<close> writes; the dumped dictionary is taken to be serialisable.
  A collaborator that raises is taken to leave its object as it was.
\<close>

record ('b, 's, 'd, 'g) lib =
  est_set_params :: "'b \<Rightarrow> params \<Rightarrow> exn + 'b"
  clone :: "('b, 's) pyobj \<Rightarrow> exn + 'b"
  est_fit :: "'b \<Rightarrow> matrix \<Rightarrow> vector \<Rightarrow> int list option \<Rightarrow> exn + 'b"
  est_predict :: "'b \<Rightarrow> matrix \<Rightarrow> exn + vector"
  dump_model :: "'b \<Rightarrow> exn + 'd"
  std_update :: "'s \<Rightarrow> matrix \<Rightarrow> vector \<Rightarrow> 'g option \<Rightarrow> int list \<Rightarrow> exn + 's"
  std_predict :: "'s \<Rightarrow> matrix \<Rightarrow> bool \<Rightarrow> exn + vector"
  order_tree_model_dict :: "'d \<Rightarrow> int list \<Rightarrow> exn + 'd"
  GbmModel :: "'d \<Rightarrow> exn + 'g"
  json_dump :: "'d \<Rightarrow> string"

text \<open>Sequencing: the first exception ends the method; the state reached so far is kept.\<close>

fun and_then :: "'st \<times> 'a outcome \<Rightarrow> ('a \<Rightarrow> 'st \<Rightarrow> 'st \<times> 'c outcome) \<Rightarrow> 'st \<times> 'c outcome" where
  "and_then (st, Raises e) k = (st, Raises e)"
| "and_then (st, Returns x) k = k x st"

subsection \<open>set\_params\<close>

text \<open>
  \<open>set_params(self, **params)\<close> adds \<open>min_child_samples = 2\<close> when the key is absent and
  calls \<open>self.base_estimator.set_params(**params)\<close>. That call is dispatched on what the
  base estimator is (\<open>call_set_params\<close>): \<open>None\<close> has no such attribute, an external
  estimator runs its own \<open>set_params\<close>, an adapter runs the method above.
\<close>

fun set_params ::
  "('b, 's, 'd, 'g) lib \<Rightarrow> params \<Rightarrow> ('b, 's) adapter \<Rightarrow> ('b, 's, 'd, 'g) world
     \<Rightarrow> (('b, 's) adapter \<times> ('b, 's, 'd, 'g) world) \<times> unit outcome"
and call_set_params ::
  "('b, 's, 'd, 'g) lib \<Rightarrow> params \<Rightarrow> ('b, 's) pyobj \<Rightarrow> ('b, 's, 'd, 'g) world
     \<Rightarrow> (('b, 's) pyobj \<times> ('b, 's, 'd, 'g) world) \<times> unit outcome"
where
  "set_params L ps (Adapter c base std rs ci reg) w =
     (let ps' = (if ''min_child_samples'' \<notin> set (map fst ps)
                 then ps @ [(''min_child_samples'', PInt 2)] else ps)
      in case call_set_params L ps' base w of
           ((base', w'), out) \<Rightarrow> ((Adapter c base' std rs ci reg, w'), out))"
| "call_set_params L ps PyNone w = ((PyNone, w), Raises (AttributeError ''NoneType'' ''set_params''))"
| "call_set_params L ps (Estimator b) w =
     (case est_set_params L b ps of
        Inl e \<Rightarrow> ((Estimator b, record_call (Call_set_params b ps) w), Raises e)
      | Inr b' \<Rightarrow> ((Estimator b', record_call (Call_set_params b ps) w), Returns ()))"
| "call_set_params L ps (Instance a) w =
     (case set_params L ps a w of ((a', w'), out) \<Rightarrow> ((Instance a', w'), out))"

subsection \<open>The steps of fit\<close>

text \<open>
  \<open>base_estimator.set_params(random_state=self.random_state, verbose=-1)\<close>. The estimator
  is changed in place, so the adapter's attribute refers to the changed object.
\<close>

fun base_set_params ::
  "('b, 's, 'd, 'g) lib \<Rightarrow> params \<Rightarrow> ('b, 's) adapter \<times> ('b, 's, 'd, 'g) world
     \<Rightarrow> (('b, 's) adapter \<times> ('b, 's, 'd, 'g) world) \<times> unit outcome" where
  "base_set_params L ps (self, w) =
     (case call_set_params L ps (base_estimator self) w of
        ((base', w'), out) \<Rightarrow> ((set_base_estimator base' self, w'), out))"

text \<open>\<open>self.regressor_ = clone(base_estimator)\<close>.\<close>

fun clone_base ::
  "('b, 's, 'd, 'g) lib \<Rightarrow> ('b, 's) adapter \<times> ('b, 's, 'd, 'g) world
     \<Rightarrow> (('b, 's) adapter \<times> ('b, 's, 'd, 'g) world) \<times> unit outcome" where
  "clone_base L (self, w) =
     (case clone L (base_estimator self) of
        Inl e \<Rightarrow> ((self, record_call (Call_clone (base_estimator self)) w), Raises e)
      | Inr r \<Rightarrow> ((set_regressor (Some r) self,
                   record_call (Call_clone (base_estimator self)) w), Returns ()))"

text \<open>
  \<open>self.std_estimator.update(X, y, cat_column=self.cat_idx)\<close> when \<open>g\<close> is \<open>None\<close>, and
  \<open>self.std_estimator.update(X, y, gbm_model, cat_column=self.cat_idx)\<close> when it is
  \<open>Some gbm_model\<close>.
\<close>

fun update_std ::
  "('b, 's, 'd, 'g) lib \<Rightarrow> matrix \<Rightarrow> vector \<Rightarrow> 'g option
     \<Rightarrow> ('b, 's) adapter \<times> ('b, 's, 'd, 'g) world
     \<Rightarrow> (('b, 's) adapter \<times> ('b, 's, 'd, 'g) world) \<times> unit outcome" where
  "update_std L X y g (self, w) =
     (case std_estimator self of
        None \<Rightarrow> ((self, w), Raises (AttributeError ''NoneType'' ''update''))
      | Some s \<Rightarrow>
          (case std_update L s X y g (cat_idx self) of
             Inl e \<Rightarrow> ((self, record_call (Call_std_update s X y g (cat_idx self)) w), Raises e)
           | Inr s' \<Rightarrow> ((set_std_estimator (Some s') self,
                         record_call (Call_std_update s X y g (cat_idx self)) w), Returns ())))"

text \<open>
  \<open>if self.cat_idx: self.regressor_.fit(X, y, categorical_feature=self.cat_idx)
  else: self.regressor_.fit(X, y)\<close>. A list is true when it is not empty. The source
  runs this under \<open>warnings.catch_warnings()\<close>; warnings are not exceptions and are left
  out.
\<close>

definition categorical_feature :: "int list \<Rightarrow> int list option" where
  "categorical_feature ci = (if ci \<noteq> [] then Some ci else None)"

fun fit_regressor ::
  "('b, 's, 'd, 'g) lib \<Rightarrow> matrix \<Rightarrow> vector
     \<Rightarrow> ('b, 's) adapter \<times> ('b, 's, 'd, 'g) world
     \<Rightarrow> (('b, 's) adapter \<times> ('b, 's, 'd, 'g) world) \<times> unit outcome" where
  "fit_regressor L X y (self, w) =
     (case regressor self of
        None \<Rightarrow> ((self, w), Raises (AttributeError (cls_name (cls_of self)) ''regressor_''))
      | Some r \<Rightarrow>
          (case est_fit L r X y (categorical_feature (cat_idx self)) of
             Inl e \<Rightarrow> ((self, record_call (Call_fit r X y (categorical_feature (cat_idx self))) w),
                       Raises e)
           | Inr r' \<Rightarrow> ((set_regressor (Some r') self,
                         record_call (Call_fit r X y (categorical_feature (cat_idx self))) w),
                        Returns ())))"

subsection \<open>get\_gbm\_model\<close>

text \<open>\<open>self.regressor_._Booster.dump_model()\<close>.\<close>

fun dump_regressor ::
  "('b, 's, 'd, 'g) lib \<Rightarrow> ('b, 's) adapter \<times> ('b, 's, 'd, 'g) world
     \<Rightarrow> (('b, 's) adapter \<times> ('b, 's, 'd, 'g) world) \<times> 'd outcome" where
  "dump_regressor L (self, w) =
     (case regressor self of
        None \<Rightarrow> ((self, w), Raises (AttributeError (cls_name (cls_of self)) ''regressor_''))
      | Some r \<Rightarrow>
          (case dump_model L r of
             Inl e \<Rightarrow> ((self, record_call (Call_dump_model r) w), Raises e)
           | Inr d \<Rightarrow> ((self, record_call (Call_dump_model r) w), Returns d)))"

text \<open>
  \<open>with open(path, 'w') as f: json.dump(..., f, indent=4, sort_keys=False)\<close>: \<open>open\<close>
  raises when the path cannot be opened for writing; otherwise the file holds the text.
\<close>

fun write_file ::
  "string \<Rightarrow> string \<Rightarrow> 'a \<times> ('b, 's, 'd, 'g) world
     \<Rightarrow> ('a \<times> ('b, 's, 'd, 'g) world) \<times> unit outcome" where
  "write_file path text (self, w) =
     (if writable w path
      then ((self, record_call (Write_file path text) (w\<lparr>files := (files w)(path \<mapsto> text)\<rparr>)),
            Returns ())
      else ((self, w), Raises (OSError path)))"

text \<open>\<open>order_tree_model_dict(original_tree_model_dict, cat_column=self.cat_idx)\<close>.\<close>

fun call_order_tree_model_dict ::
  "('b, 's, 'd, 'g) lib \<Rightarrow> 'd \<Rightarrow> ('b, 's) adapter \<times> ('b, 's, 'd, 'g) world
     \<Rightarrow> (('b, 's) adapter \<times> ('b, 's, 'd, 'g) world) \<times> 'd outcome" where
  "call_order_tree_model_dict L d (self, w) =
     (case order_tree_model_dict L d (cat_idx self) of
        Inl e \<Rightarrow> ((self, record_call (Call_order_tree_model_dict d (cat_idx self)) w), Raises e)
      | Inr od \<Rightarrow> ((self, record_call (Call_order_tree_model_dict d (cat_idx self)) w), Returns od))"

text \<open>\<open>GbmModel(ordered_tree_model_dict)\<close>.\<close>

fun call_GbmModel ::
  "('b, 's, 'd, 'g) lib \<Rightarrow> 'd \<Rightarrow> ('b, 's) adapter \<times> ('b, 's, 'd, 'g) world
     \<Rightarrow> (('b, 's) adapter \<times> ('b, 's, 'd, 'g) world) \<times> 'g outcome" where
  "call_GbmModel L od (self, w) =
     (case GbmModel L od of
        Inl e \<Rightarrow> ((self, record_call (Call_GbmModel od) w), Raises e)
      | Inr g \<Rightarrow> ((self, record_call (Call_GbmModel od) w), Returns g))"

definition tree_dict_path :: string where
  "tree_dict_path = ''tree_dict_next.json''"

text \<open>
  \<open>get_gbm_model(self)\<close>, defined in \<open>EntingRegressor\<close> and inherited by
  \<open>MisicRegressor\<close>. The two imports that open the method are taken to succeed.
\<close>

definition get_gbm_model ::
  "('b, 's, 'd, 'g) lib \<Rightarrow> ('b, 's) adapter \<times> ('b, 's, 'd, 'g) world
     \<Rightarrow> (('b, 's) adapter \<times> ('b, 's, 'd, 'g) world) \<times> 'g outcome" where
  "get_gbm_model L st =
     and_then (dump_regressor L st) (\<lambda>original_tree_model_dict st.
     and_then (write_file tree_dict_path (json_dump L original_tree_model_dict) st) (\<lambda>_ st.
     and_then (call_order_tree_model_dict L original_tree_model_dict st)
       (\<lambda>ordered_tree_model_dict st.
     call_GbmModel L ordered_tree_model_dict st)))"

subsection \<open>fit\<close>

text \<open>\<open>EntingRegressor.fit(self, X, y)\<close>.\<close>

definition EntingRegressor_fit ::
  "('b, 's, 'd, 'g) lib \<Rightarrow> matrix \<Rightarrow> vector \<Rightarrow> ('b, 's) adapter \<times> ('b, 's, 'd, 'g) world
     \<Rightarrow> (('b, 's) adapter \<times> ('b, 's, 'd, 'g) world) \<times> unit outcome" where
  "EntingRegressor_fit L X y st =
     and_then (base_set_params L
                 [(''random_state'', random_state (fst st)), (''verbose'', PInt (- 1))] st) (\<lambda>_ st.
     and_then (clone_base L st) (\<lambda>_ st.
     and_then (update_std L X y None st) (\<lambda>_ st.
     fit_regressor L X y st)))"

text \<open>\<open>MisicRegressor.fit(self, X, y)\<close>.\<close>

definition MisicRegressor_fit ::
  "('b, 's, 'd, 'g) lib \<Rightarrow> matrix \<Rightarrow> vector \<Rightarrow> ('b, 's) adapter \<times> ('b, 's, 'd, 'g) world
     \<Rightarrow> (('b, 's) adapter \<times> ('b, 's, 'd, 'g) world) \<times> unit outcome" where
  "MisicRegressor_fit L X y st =
     and_then (base_set_params L
                 [(''random_state'', random_state (fst st)), (''verbose'', PInt (- 1))] st) (\<lambda>_ st.
     and_then (clone_base L st) (\<lambda>_ st.
     and_then (fit_regressor L X y st) (\<lambda>_ st.
     and_then (get_gbm_model L st) (\<lambda>gbm_model st.
     update_std L X y (Some gbm_model) st))))"

text \<open>
  \<open>self.fit(X, y)\<close> resolves to the method of the instance's class: \<open>MisicRegressor\<close>
  overrides \<open>fit\<close>; \<open>set_params\<close>, \<open>predict\<close> and \<open>get_gbm_model\<close> are inherited.
\<close>

definition fit ::
  "('b, 's, 'd, 'g) lib \<Rightarrow> matrix \<Rightarrow> vector \<Rightarrow> ('b, 's) adapter \<times> ('b, 's, 'd, 'g) world
     \<Rightarrow> (('b, 's) adapter \<times> ('b, 's, 'd, 'g) world) \<times> unit outcome" where
  "fit L X y st =
     (case cls_of (fst st) of
        EntingRegressor \<Rightarrow> EntingRegressor_fit L X y st
      | MisicRegressor \<Rightarrow> MisicRegressor_fit L X y st)"

subsection \<open>Reading the record of calls\<close>

fun is_set_params_call :: "('b, 's, 'd, 'g) event \<Rightarrow> bool" where
  "is_set_params_call (Call_set_params b ps) = True"
| "is_set_params_call ev = False"

text \<open>A call of \<open>std_estimator.update\<close> that is given a tree model.\<close>

fun passes_tree_model :: "('b, 's, 'd, 'g) event \<Rightarrow> bool" where
  "passes_tree_model (Call_std_update s X y (Some g) ci) = True"
| "passes_tree_model ev = False"

subsection \<open>Adapters stored as base estimator\<close>

text \<open>
  A base estimator may itself be an adapter (\<open>MisicRegressor\<close> stores an
  \<open>EntingRegressor\<close> it is given, and the attribute can be assigned). Following
  \<open>base_estimator\<close> from adapter to adapter ends at an external estimator or at \<open>None\<close>:
  \<open>reached_estimator\<close> is where it ends, and \<open>put_reached b'\<close> is the same object with
  \<open>b'\<close> at that place.
\<close>

fun reached_estimator :: "('b, 's) pyobj \<Rightarrow> 'b option"
and inner_estimator :: "('b, 's) adapter \<Rightarrow> 'b option" where
  "reached_estimator PyNone = None"
| "reached_estimator (Estimator b) = Some b"
| "reached_estimator (Instance a) = inner_estimator a"
| "inner_estimator (Adapter c base std rs ci reg) = reached_estimator base"

fun put_reached :: "'b \<Rightarrow> ('b, 's) pyobj \<Rightarrow> ('b, 's) pyobj"
and put_inner :: "'b \<Rightarrow> ('b, 's) adapter \<Rightarrow> ('b, 's) adapter" where
  "put_reached b' PyNone = PyNone"
| "put_reached b' (Estimator b) = Estimator b'"
| "put_reached b' (Instance a) = Instance (put_inner b' a)"
| "put_inner b' (Adapter c base std rs ci reg) = Adapter c (put_reached b' base) std rs ci reg"

text \<open>
  The keyword arguments that arrive at the estimator reached when \<open>set_params(**ps)\<close> is
  called on an object: an external estimator receives \<open>ps\<close>, an adapter hands on
  \<open>ps\<close> with \<open>min_child_samples = 2\<close> added when the key is absent.
\<close>

definition with_min_child_samples :: "params \<Rightarrow> params" where
  "with_min_child_samples ps =
     (if ''min_child_samples'' \<in> fst ` set ps then ps
      else ps @ [(''min_child_samples'', PInt 2)])"

fun arriving_params :: "('b, 's) pyobj \<Rightarrow> params \<Rightarrow> params" where
  "arriving_params (Instance a) ps = with_min_child_samples ps"
| "arriving_params obj ps = ps"

subsection \<open>predict\<close>

datatype prediction = Mean vector | Mean_std vector vector

text \<open>\<open>self.regressor_.predict(X)\<close>.\<close>

fun predict_regressor ::
  "('b, 's, 'd, 'g) lib \<Rightarrow> matrix \<Rightarrow> ('b, 's) adapter \<times> ('b, 's, 'd, 'g) world
     \<Rightarrow> (('b, 's) adapter \<times> ('b, 's, 'd, 'g) world) \<times> vector outcome" where
  "predict_regressor L X (self, w) =
     (case regressor self of
        None \<Rightarrow> ((self, w), Raises (AttributeError (cls_name (cls_of self)) ''regressor_''))
      | Some r \<Rightarrow>
          (case est_predict L r X of
             Inl e \<Rightarrow> ((self, record_call (Call_predict r X) w), Raises e)
           | Inr m \<Rightarrow> ((self, record_call (Call_predict r X) w), Returns m)))"

text \<open>\<open>self.std_estimator.predict(X, scaled=scaled)\<close>.\<close>

fun predict_std ::
  "('b, 's, 'd, 'g) lib \<Rightarrow> matrix \<Rightarrow> bool \<Rightarrow> ('b, 's) adapter \<times> ('b, 's, 'd, 'g) world
     \<Rightarrow> (('b, 's) adapter \<times> ('b, 's, 'd, 'g) world) \<times> vector outcome" where
  "predict_std L X scaled (self, w) =
     (case std_estimator self of
        None \<Rightarrow> ((self, w), Raises (AttributeError ''NoneType'' ''predict''))
      | Some s \<Rightarrow>
          (case std_predict L s X scaled of
             Inl e \<Rightarrow> ((self, record_call (Call_std_predict s X scaled) w), Raises e)
           | Inr u \<Rightarrow> ((self, record_call (Call_std_predict s X scaled) w), Returns u)))"

text \<open>\<open>predict(self, X, return_std=False, scaled=True)\<close>.\<close>

definition predict ::
  "('b, 's, 'd, 'g) lib \<Rightarrow> matrix \<Rightarrow> bool \<Rightarrow> bool
     \<Rightarrow> ('b, 's) adapter \<times> ('b, 's, 'd, 'g) world
     \<Rightarrow> (('b, 's) adapter \<times> ('b, 's, 'd, 'g) world) \<times> prediction outcome" where
  "predict L X return_std scaled st =
     and_then (predict_regressor L X st) (\<lambda>mean st.
     if return_std
     then and_then (predict_std L X scaled st) (\<lambda>std st. (st, Returns (Mean_std mean std)))
     else (st, Returns (Mean mean)))"

subsection \<open>Test doubles\<close>

text \<open>
  A stand-in for each collaborator, used to run the methods on concrete inputs. The
  estimator double remembers its parameters and its training set, refuses to predict or
  to be dumped before it is fitted, and predicts one value per row. The uncertainty double
  remembers how many rows it was updated with and whether it was given a tree model.
  \<open>Demo_adapter c t\<close> stands for what \<open>clone\<close> returns for an adapter of class \<open>c\<close>: an
  adapter, whose \<open>fit\<close> takes no \<open>categorical_feature\<close> and which has no \<open>_Booster\<close>.
\<close>

datatype demo_est =
    Demo_est params "(matrix \<times> vector) option"
  | Demo_adapter cls "(matrix \<times> vector) option"

datatype demo_std = Demo_std nat bool

fun demo_set_params :: "demo_est \<Rightarrow> params \<Rightarrow> exn + demo_est" where
  "demo_set_params (Demo_est old t) ps = Inr (Demo_est ps t)"
| "demo_set_params (Demo_adapter c t) ps = Inr (Demo_adapter c t)"

fun demo_clone :: "(demo_est, demo_std) pyobj \<Rightarrow> exn + demo_est" where
  "demo_clone (Estimator (Demo_est ps t)) = Inr (Demo_est ps None)"
| "demo_clone (Estimator (Demo_adapter c t)) = Inr (Demo_adapter c None)"
| "demo_clone PyNone = Inl (OtherError ''TypeError'')"
| "demo_clone (Instance a) = Inr (Demo_adapter (cls_of a) None)"

fun demo_fit :: "demo_est \<Rightarrow> matrix \<Rightarrow> vector \<Rightarrow> int list option \<Rightarrow> exn + demo_est" where
  "demo_fit (Demo_est ps t) X y cf =
     (if length X = length y then Inr (Demo_est ps (Some (X, y)))
      else Inl (OtherError ''ValueError''))"
| "demo_fit (Demo_adapter c t) X y (Some ci) = Inl (OtherError ''TypeError'')"
| "demo_fit (Demo_adapter c t) X y None =
     (if length X = length y then Inr (Demo_adapter c (Some (X, y)))
      else Inl (OtherError ''ValueError''))"

fun demo_predict :: "demo_est \<Rightarrow> matrix \<Rightarrow> exn + vector" where
  "demo_predict (Demo_est ps None) X = Inl NotFittedError"
| "demo_predict (Demo_est ps (Some t)) X = Inr (map (\<lambda>row. 0) X)"
| "demo_predict (Demo_adapter c None) X = Inl (AttributeError (cls_name c) ''regressor_'')"
| "demo_predict (Demo_adapter c (Some t)) X = Inr (map (\<lambda>row. 0) X)"

fun demo_dump_model :: "demo_est \<Rightarrow> exn + string" where
  "demo_dump_model (Demo_est ps None) = Inl NotFittedError"
| "demo_dump_model (Demo_est ps (Some t)) = Inr ''trees''"
| "demo_dump_model (Demo_adapter c t) = Inl (AttributeError (cls_name c) ''_Booster'')"

fun demo_std_update ::
  "demo_std \<Rightarrow> matrix \<Rightarrow> vector \<Rightarrow> string option \<Rightarrow> int list \<Rightarrow> exn + demo_std" where
  "demo_std_update s X y g ci = Inr (Demo_std (length X) (g \<noteq> None))"

fun demo_std_predict :: "demo_std \<Rightarrow> matrix \<Rightarrow> bool \<Rightarrow> exn + vector" where
  "demo_std_predict s X scaled = Inr (map (\<lambda>row. if scaled then 1 else 2) X)"

definition demo_lib :: "(demo_est, demo_std, string, string) lib" where
  "demo_lib =
     \<lparr> est_set_params = demo_set_params,
       clone = demo_clone,
       est_fit = demo_fit,
       est_predict = demo_predict,
       dump_model = demo_dump_model,
       std_update = demo_std_update,
       std_predict = demo_std_predict,
       order_tree_model_dict = (\<lambda>d ci. Inr (''ordered '' @ d)),
       GbmModel = (\<lambda>d. Inr (''GbmModel '' @ d)),
       json_dump = (\<lambda>d. ''json '' @ d) \<rparr>"

definition demo_world :: "(demo_est, demo_std, string, string) world" where
  "demo_world = \<lparr> calls = [], files = (\<lambda>p. None), writable = (\<lambda>p. True) \<rparr>"

definition demo_estimator :: demo_est where
  "demo_estimator = Demo_est [] None"

definition demo_X :: matrix where
  "demo_X = [[1, 2], [3, 4], [5, 6]]"

definition demo_y :: vector where
  "demo_y = [10, 20, 30]"

definition demo_std0 :: demo_std where
  "demo_std0 = Demo_std 0 False"

definition demo_enting :: "(demo_est, demo_std) adapter" where
  "demo_enting = EntingRegressor_init (Estimator demo_estimator) (Some demo_std0) (PInt 7) []"

definition demo_misic :: "(demo_est, demo_std) adapter" where
  "demo_misic = MisicRegressor_init (Estimator demo_estimator) (Some demo_std0) (PInt 7) [1]"

text \<open>An adapter whose \<open>regressor_\<close> holds a fitted estimator.\<close>

definition demo_fitted :: "(demo_est, demo_std) adapter" where
  "demo_fitted = set_regressor (Some (Demo_est [] (Some (demo_X, demo_y)))) demo_enting"

text \<open>
  Adapters whose base estimator is an adapter: a \<open>MisicRegressor\<close> constructed with an
  \<open>EntingRegressor\<close>, and an \<open>EntingRegressor\<close> whose \<open>base_estimator\<close> attribute has
  been assigned one.
\<close>

definition demo_misic_nested :: "(demo_est, demo_std) adapter" where
  "demo_misic_nested = MisicRegressor_init (Instance demo_enting) (Some demo_std0) (PInt 3) []"


text \<open>Adapters with a collaborator left at its default \<open>None\<close>.\<close>

definition demo_no_base :: "(demo_est, demo_std) adapter" where
  "demo_no_base = EntingRegressor_init PyNone None PNone []"

definition demo_enting_no_std :: "(demo_est, demo_std) adapter" where
  "demo_enting_no_std = EntingRegressor_init (Estimator demo_estimator) None (PInt 7) []"

definition demo_misic_no_std :: "(demo_est, demo_std) adapter" where
  "demo_misic_no_std = MisicRegressor_init (Estimator demo_estimator) None (PInt 7) []"

section \<open>Properties\<close>

subsection \<open>Attribute assignment, sequencing and the single steps\<close>

lemma sel_set_base_estimator [simp]:
  "cls_of (set_base_estimator v a) = cls_of a"
  "base_estimator (set_base_estimator v a) = v"
  "std_estimator (set_base_estimator v a) = std_estimator a"
  "random_state (set_base_estimator v a) = random_state a"
  "cat_idx (set_base_estimator v a) = cat_idx a"
  "regressor (set_base_estimator v a) = regressor a"
  by (cases a; simp)+

lemma sel_set_std_estimator [simp]:
  "cls_of (set_std_estimator v a) = cls_of a"
  "base_estimator (set_std_estimator v a) = base_estimator a"
  "std_estimator (set_std_estimator v a) = v"
  "random_state (set_std_estimator v a) = random_state a"
  "cat_idx (set_std_estimator v a) = cat_idx a"
  "regressor (set_std_estimator v a) = regressor a"
  by (cases a; simp)+

lemma sel_set_regressor [simp]:
  "cls_of (set_regressor v a) = cls_of a"
  "base_estimator (set_regressor v a) = base_estimator a"
  "std_estimator (set_regressor v a) = std_estimator a"
  "random_state (set_regressor v a) = random_state a"
  "cat_idx (set_regressor v a) = cat_idx a"
  "regressor (set_regressor v a) = v"
  by (cases a; simp)+

lemma sel_record_call [simp]:
  "calls (record_call ev w) = calls w @ [ev]"
  "files (record_call ev w) = files w"
  "writable (record_call ev w) = writable w"
  by (simp_all add: record_call_def)

lemma and_then_Returns_iff:
  "and_then r k = (st', Returns x) \<longleftrightarrow> (\<exists>st1 v. r = (st1, Returns v) \<and> k v st1 = (st', Returns x))"
proof (cases r)
  case (Pair st out)
  then show ?thesis by (cases out) auto
qed

lemma and_then_cases:
  assumes "and_then r k = (st', out)"
  obtains e where "r = (st', Raises e)" and "out = Raises e"
  | st1 v where "r = (st1, Returns v)" and "k v st1 = (st', out)"
proof (cases r)
  case (Pair st o1)
  with assms that show ?thesis by (cases o1) auto
qed

lemma set_params_frame:
  "set_params L ps a w = ((a', w'), out) \<Longrightarrow>
     files w' = files w \<and> writable w' = writable w \<and> a' = set_base_estimator (base_estimator a') a \<and>
     (\<exists>pre. calls w' = calls w @ pre \<and> list_all is_set_params_call pre)"
  "call_set_params L ps b w = ((b', w'), out) \<Longrightarrow>
     files w' = files w \<and> writable w' = writable w \<and>
     (\<exists>pre. calls w' = calls w @ pre \<and> list_all is_set_params_call pre)"
proof (induction L ps a w and L ps b w arbitrary: a' w' out and b' w' out rule: set_params_call_set_params.induct)
  case (1 L ps c base std rs ci reg w)
  then show ?case by (auto simp: Let_def split: prod.splits if_splits)
next
  case (2 L ps w)
  then show ?case by auto
next
  case (3 L ps b w)
  then show ?case by (auto split: sum.splits)
next
  case (4 L ps a w)
  then show ?case by (auto split: prod.splits)
qed

lemma base_set_params_step:
  assumes "base_set_params L ps (self, w) = ((self1, w1), out)"
  shows "files w1 = files w" and "writable w1 = writable w"
    and "self1 = set_base_estimator (base_estimator self1) self"
    and "\<exists>pre. calls w1 = calls w @ pre \<and> list_all is_set_params_call pre"
  using assms set_params_frame(2) [of L ps "base_estimator self" w]
  by (auto split: prod.splits)

lemma clone_base_step:
  assumes "clone_base L (self, w) = ((self1, w1), out)"
  shows "w1 = record_call (Call_clone (base_estimator self)) w"
    and "\<And>v. out = Returns v \<Longrightarrow>
           \<exists>r. clone L (base_estimator self) = Inr r \<and> self1 = set_regressor (Some r) self"
    and "\<And>e. out = Raises e \<Longrightarrow> clone L (base_estimator self) = Inl e \<and> self1 = self"
  using assms by (auto split: sum.splits)

lemma update_std_Returns:
  assumes "update_std L X y g (self, w) = ((self1, w1), Returns v)"
  shows "\<exists>s s'. std_estimator self = Some s \<and> std_update L s X y g (cat_idx self) = Inr s' \<and>
           self1 = set_std_estimator (Some s') self \<and>
           w1 = record_call (Call_std_update s X y g (cat_idx self)) w"
  using assms by (auto split: sum.splits option.splits)

lemma update_std_step:
  assumes "update_std L X y g (self, w) = ((self1, w1), out)"
  shows "files w1 = files w" and "writable w1 = writable w"
    and "w1 = w \<or> (\<exists>s. w1 = record_call (Call_std_update s X y g (cat_idx self)) w)"
  using assms by (auto split: sum.splits option.splits)

lemma fit_regressor_Returns:
  assumes "fit_regressor L X y (self, w) = ((self1, w1), Returns v)"
  shows "\<exists>r r'. regressor self = Some r \<and>
           est_fit L r X y (categorical_feature (cat_idx self)) = Inr r' \<and>
           self1 = set_regressor (Some r') self \<and>
           w1 = record_call (Call_fit r X y (categorical_feature (cat_idx self))) w"
  using assms by (auto split: sum.splits option.splits)

lemma fit_regressor_step:
  assumes "fit_regressor L X y (self, w) = ((self1, w1), out)"
  shows "files w1 = files w" and "writable w1 = writable w"
    and "w1 = w \<or> (\<exists>r. w1 = record_call (Call_fit r X y (categorical_feature (cat_idx self))) w)"
  using assms by (auto split: sum.splits option.splits)

lemma EntingRegressor_fit_Returns:
  assumes "EntingRegressor_fit L X y (self, w) = ((self', w'), Returns ())"
  shows "\<exists>pre base' r r' s s'.
           calls w' = calls w @ pre @
             [Call_clone base', Call_std_update s X y None (cat_idx self),
              Call_fit r X y (categorical_feature (cat_idx self))] \<and>
           list_all is_set_params_call pre \<and>
           call_set_params L [(''random_state'', random_state self), (''verbose'', PInt (- 1))]
              (base_estimator self) w = ((base', w\<lparr>calls := calls w @ pre\<rparr>), Returns ()) \<and>
           clone L base' = Inr r \<and>
           std_estimator self = Some s \<and> std_update L s X y None (cat_idx self) = Inr s' \<and>
           est_fit L r X y (categorical_feature (cat_idx self)) = Inr r' \<and>
           self' = Adapter (cls_of self) base' (Some s') (random_state self) (cat_idx self) (Some r') \<and>
           files w' = files w \<and> writable w' = writable w"
proof -
  let ?ps = "[(''random_state'', random_state self), (''verbose'', PInt (- 1))]"
  from assms obtain st1 st2 st3 where
    1: "base_set_params L ?ps (self, w) = (st1, Returns ())" and
    2: "clone_base L st1 = (st2, Returns ())" and
    3: "update_std L X y None st2 = (st3, Returns ())" and
    4: "fit_regressor L X y st3 = ((self', w'), Returns ())"
    by (auto simp: EntingRegressor_fit_def and_then_Returns_iff)
  obtain self1 w1 where st1: "st1 = (self1, w1)" by (cases st1)
  obtain self2 w2 where st2: "st2 = (self2, w2)" by (cases st2)
  obtain self3 w3 where st3: "st3 = (self3, w3)" by (cases st3)
  obtain base' w1' where c: "call_set_params L ?ps (base_estimator self) w = ((base', w1'), Returns ())"
    using 1 by (auto split: prod.splits)
  with 1 st1 have s1: "self1 = set_base_estimator base' self" "w1 = w1'" by auto
  from set_params_frame(2) [OF c] obtain pre where
    p: "calls w1 = calls w @ pre" "list_all is_set_params_call pre" "files w1 = files w" "writable w1 = writable w"
    using s1 by auto
  then have w1: "w1 = w\<lparr>calls := calls w @ pre\<rparr>" by simp
  from clone_base_step [OF 2 [unfolded st1 st2]] s1 obtain r where
    r: "clone L base' = Inr r" "self2 = set_regressor (Some r) self1" "w2 = record_call (Call_clone base') w1"
    by auto
  from update_std_Returns [OF 3 [unfolded st2 st3]] r s1 obtain s s' where
    s: "std_estimator self = Some s" "std_update L s X y None (cat_idx self) = Inr s'"
       "self3 = set_std_estimator (Some s') self2" "w3 = record_call (Call_std_update s X y None (cat_idx self)) w2"
    by auto
  from fit_regressor_Returns [OF 4 [unfolded st3]] s r s1 obtain r' where
    f: "est_fit L r X y (categorical_feature (cat_idx self)) = Inr r'"
       "self' = set_regressor (Some r') self3"
       "w' = record_call (Call_fit r X y (categorical_feature (cat_idx self))) w3"
    by auto
  have "self' = Adapter (cls_of self) base' (Some s') (random_state self) (cat_idx self) (Some r')"
    using f s r s1 by (cases self) simp
  moreover have "calls w' = calls w @ pre @ [Call_clone base', Call_std_update s X y None (cat_idx self),
              Call_fit r X y (categorical_feature (cat_idx self))]"
    using f s r p by simp
  moreover have "files w' = files w" "writable w' = writable w"
    using f s r p by simp_all
  ultimately show ?thesis using p c s1 w1 r s f by blast
qed

lemma is_set_params_call_no_tree:
  "list_all is_set_params_call es \<Longrightarrow> list_all (\<lambda>ev. \<not> passes_tree_model ev) es"
proof (induction es)
  case Nil
  then show ?case by simp
next
  case (Cons ev es)
  then show ?case by (cases ev) auto
qed

lemma EntingRegressor_fit_frame:
  assumes "EntingRegressor_fit L X y (self, w) = ((self', w'), out)"
  shows "\<exists>es. calls w' = calls w @ es \<and> list_all (\<lambda>ev. \<not> passes_tree_model ev) es"
    and "files w' = files w"
proof -
  let ?ps = "[(''random_state'', random_state self), (''verbose'', PInt (- 1))]"
  let ?P = "\<lambda>w'. (\<exists>es. calls w' = calls w @ es \<and> list_all (\<lambda>ev. \<not> passes_tree_model ev) es) \<and>
                   files w' = files w"
  have A: "and_then (base_set_params L ?ps (self, w)) (\<lambda>_ st.
     and_then (clone_base L st) (\<lambda>_ st.
     and_then (update_std L X y None st) (\<lambda>_ st.
     fit_regressor L X y st))) = ((self', w'), out)"
    using assms by (simp add: EntingRegressor_fit_def)
  have "?P w'"
    using A
  proof (cases rule: and_then_cases)
    case (1 e)
    from base_set_params_step [OF 1(1)] show ?thesis
      by (auto dest: is_set_params_call_no_tree)
  next
    case (2 st1 v1)
    obtain self1 w1 where st1: "st1 = (self1, w1)" by (cases st1)
    from base_set_params_step [OF 2(1) [unfolded st1]] have P1: "?P w1"
      by (auto dest: is_set_params_call_no_tree)
    from 2(2) show ?thesis
    proof (cases rule: and_then_cases)
      case (1 e)
      from clone_base_step(1) [OF 1(1) [unfolded st1]] P1 show ?thesis by auto
    next
      case (2 st2 v2)
      obtain self2 w2 where st2: "st2 = (self2, w2)" by (cases st2)
      from clone_base_step(1) [OF 2(1) [unfolded st1 st2]] P1 have P2: "?P w2" by auto
      from 2(2) show ?thesis
      proof (cases rule: and_then_cases)
        case (1 e)
        from update_std_step [OF 1(1) [unfolded st2]] P2 show ?thesis by auto
      next
        case (2 st3 v3)
        obtain self3 w3 where st3: "st3 = (self3, w3)" by (cases st3)
        from update_std_step [OF 2(1) [unfolded st2 st3]] P2 have P3: "?P w3" by auto
        from fit_regressor_step [OF 2(2) [unfolded st3]] P3 show ?thesis by auto
      qed
    qed
  qed
  then show "\<exists>es. calls w' = calls w @ es \<and> list_all (\<lambda>ev. \<not> passes_tree_model ev) es"
    and "files w' = files w" by auto
qed

lemma get_gbm_model_unfitted:
  "regressor self = None \<Longrightarrow>
   get_gbm_model L (self, w) = ((self, w), Raises (AttributeError (cls_name (cls_of self)) ''regressor_''))"
  by (simp add: get_gbm_model_def)

lemma get_gbm_model_fitted:
  assumes "regressor self = Some r" and "dump_model L r = Inr d" and "writable w tree_dict_path"
  shows "\<exists>w' out rest.
           get_gbm_model L (self, w) = ((self, w'), out) \<and>
           files w' = (files w)(tree_dict_path \<mapsto> json_dump L d) \<and>
           writable w' = writable w \<and>
           calls w' = calls w @ [Call_dump_model r, Write_file tree_dict_path (json_dump L d),
                                 Call_order_tree_model_dict d (cat_idx self)] @ rest \<and>
           (case order_tree_model_dict L d (cat_idx self) of
              Inl e \<Rightarrow> out = Raises e \<and> rest = []
            | Inr od \<Rightarrow> rest = [Call_GbmModel od] \<and>
                (case GbmModel L od of Inl e \<Rightarrow> out = Raises e | Inr g \<Rightarrow> out = Returns g))"
  using assms by (simp add: get_gbm_model_def split: sum.splits)

lemma dump_regressor_Returns:
  assumes "dump_regressor L (self, w) = ((self1, w1), Returns d)"
  shows "\<exists>r. regressor self = Some r \<and> dump_model L r = Inr d \<and> self1 = self \<and>
           w1 = record_call (Call_dump_model r) w"
  using assms by (auto split: sum.splits option.splits)

lemma write_file_Returns:
  assumes "write_file path text (self, w) = ((self1, w1), Returns v)"
  shows "writable w path \<and> self1 = self \<and>
         w1 = record_call (Write_file path text) (w\<lparr>files := (files w)(path \<mapsto> text)\<rparr>)"
  using assms by (auto split: if_splits)

lemma call_order_tree_model_dict_Returns:
  assumes "call_order_tree_model_dict L d (self, w) = ((self1, w1), Returns od)"
  shows "order_tree_model_dict L d (cat_idx self) = Inr od \<and> self1 = self \<and>
         w1 = record_call (Call_order_tree_model_dict d (cat_idx self)) w"
  using assms by (auto split: sum.splits)

lemma call_GbmModel_Returns:
  assumes "call_GbmModel L od (self, w) = ((self1, w1), Returns g)"
  shows "GbmModel L od = Inr g \<and> self1 = self \<and> w1 = record_call (Call_GbmModel od) w"
  using assms by (auto split: sum.splits)

lemma get_gbm_model_Returns:
  assumes "get_gbm_model L (self, w) = ((self', w'), Returns g)"
  shows "\<exists>r d od. regressor self = Some r \<and> dump_model L r = Inr d \<and>
           order_tree_model_dict L d (cat_idx self) = Inr od \<and> GbmModel L od = Inr g \<and>
           self' = self \<and> writable w tree_dict_path \<and> writable w' = writable w \<and>
           files w' = (files w)(tree_dict_path \<mapsto> json_dump L d) \<and>
           calls w' = calls w @ [Call_dump_model r, Write_file tree_dict_path (json_dump L d),
                                 Call_order_tree_model_dict d (cat_idx self), Call_GbmModel od]"
proof -
  from assms obtain st1 st2 st3 d u od where
    1: "dump_regressor L (self, w) = (st1, Returns d)" and
    2: "write_file tree_dict_path (json_dump L d) st1 = (st2, Returns u)" and
    3: "call_order_tree_model_dict L d st2 = (st3, Returns od)" and
    4: "call_GbmModel L od st3 = ((self', w'), Returns g)"
    by (auto simp: get_gbm_model_def and_then_Returns_iff)
  obtain self1 w1 where st1: "st1 = (self1, w1)" by (cases st1)
  obtain self2 w2 where st2: "st2 = (self2, w2)" by (cases st2)
  obtain self3 w3 where st3: "st3 = (self3, w3)" by (cases st3)
  from dump_regressor_Returns [OF 1 [unfolded st1]] obtain r where
    a: "regressor self = Some r" "dump_model L r = Inr d" "self1 = self"
       "w1 = record_call (Call_dump_model r) w" by auto
  from write_file_Returns [OF 2 [unfolded st1 st2]] have
    b: "writable w1 tree_dict_path" "self2 = self1"
       "w2 = record_call (Write_file tree_dict_path (json_dump L d))
               (w1\<lparr>files := (files w1)(tree_dict_path \<mapsto> json_dump L d)\<rparr>)" by auto
  from call_order_tree_model_dict_Returns [OF 3 [unfolded st2 st3]] have
    c: "order_tree_model_dict L d (cat_idx self2) = Inr od" "self3 = self2"
       "w3 = record_call (Call_order_tree_model_dict d (cat_idx self2)) w2" by auto
  from call_GbmModel_Returns [OF 4 [unfolded st3]] have
    e: "GbmModel L od = Inr g" "self' = self3" "w' = record_call (Call_GbmModel od) w3" by auto
  from a b c e show ?thesis by simp
qed

lemma MisicRegressor_fit_Returns:
  assumes "MisicRegressor_fit L X y (self, w) = ((self', w'), Returns ())"
  shows "\<exists>pre base' r r' d od g s s'.
           calls w' = calls w @ pre @
             [Call_clone base', Call_fit r X y (categorical_feature (cat_idx self)),
              Call_dump_model r', Write_file tree_dict_path (json_dump L d),
              Call_order_tree_model_dict d (cat_idx self), Call_GbmModel od,
              Call_std_update s X y (Some g) (cat_idx self)] \<and>
           list_all is_set_params_call pre \<and>
           call_set_params L [(''random_state'', random_state self), (''verbose'', PInt (- 1))]
              (base_estimator self) w = ((base', w\<lparr>calls := calls w @ pre\<rparr>), Returns ()) \<and>
           clone L base' = Inr r \<and>
           est_fit L r X y (categorical_feature (cat_idx self)) = Inr r' \<and>
           dump_model L r' = Inr d \<and>
           order_tree_model_dict L d (cat_idx self) = Inr od \<and> GbmModel L od = Inr g \<and>
           std_estimator self = Some s \<and> std_update L s X y (Some g) (cat_idx self) = Inr s' \<and>
           self' = Adapter (cls_of self) base' (Some s') (random_state self) (cat_idx self) (Some r') \<and>
           files w' = (files w)(tree_dict_path \<mapsto> json_dump L d) \<and>
           writable w tree_dict_path \<and> writable w' = writable w"
proof -
  let ?ps = "[(''random_state'', random_state self), (''verbose'', PInt (- 1))]"
  from assms obtain st1 st2 st3 st4 g where
    1: "base_set_params L ?ps (self, w) = (st1, Returns ())" and
    2: "clone_base L st1 = (st2, Returns ())" and
    3: "fit_regressor L X y st2 = (st3, Returns ())" and
    4: "get_gbm_model L st3 = (st4, Returns g)" and
    5: "update_std L X y (Some g) st4 = ((self', w'), Returns ())"
    by (auto simp: MisicRegressor_fit_def and_then_Returns_iff)
  obtain self1 w1 where st1: "st1 = (self1, w1)" by (cases st1)
  obtain self2 w2 where st2: "st2 = (self2, w2)" by (cases st2)
  obtain self3 w3 where st3: "st3 = (self3, w3)" by (cases st3)
  obtain self4 w4 where st4: "st4 = (self4, w4)" by (cases st4)
  obtain base' w1' where c: "call_set_params L ?ps (base_estimator self) w = ((base', w1'), Returns ())"
    using 1 by (auto split: prod.splits)
  with 1 st1 have s1: "self1 = set_base_estimator base' self" "w1 = w1'" by auto
  from set_params_frame(2) [OF c] obtain pre where
    p: "calls w1 = calls w @ pre" "list_all is_set_params_call pre" "files w1 = files w" "writable w1 = writable w"
    using s1 by auto
  then have w1: "w1 = w\<lparr>calls := calls w @ pre\<rparr>" by simp
  from clone_base_step [OF 2 [unfolded st1 st2]] s1 obtain r where
    r: "clone L base' = Inr r" "self2 = set_regressor (Some r) self1" "w2 = record_call (Call_clone base') w1"
    by auto
  from fit_regressor_Returns [OF 3 [unfolded st2 st3]] r s1 obtain r' where
    f: "est_fit L r X y (categorical_feature (cat_idx self)) = Inr r'"
       "self3 = set_regressor (Some r') self2"
       "w3 = record_call (Call_fit r X y (categorical_feature (cat_idx self))) w2"
    by auto
  from get_gbm_model_Returns [OF 4 [unfolded st3 st4]] f r s1 obtain d od where
    g: "dump_model L r' = Inr d" "order_tree_model_dict L d (cat_idx self) = Inr od"
       "GbmModel L od = Inr g" "self4 = self3" "writable w3 tree_dict_path" "writable w4 = writable w3"
       "files w4 = (files w3)(tree_dict_path \<mapsto> json_dump L d)"
       "calls w4 = calls w3 @ [Call_dump_model r', Write_file tree_dict_path (json_dump L d),
                                 Call_order_tree_model_dict d (cat_idx self), Call_GbmModel od]"
    by auto
  from update_std_Returns [OF 5 [unfolded st4]] g f r s1 obtain s s' where
    s: "std_estimator self = Some s" "std_update L s X y (Some g) (cat_idx self) = Inr s'"
       "self' = set_std_estimator (Some s') self4" "w' = record_call (Call_std_update s X y (Some g) (cat_idx self)) w4"
    by auto
  have "self' = Adapter (cls_of self) base' (Some s') (random_state self) (cat_idx self) (Some r')"
    using f s r s1 g by (cases self) simp
  moreover have "calls w' = calls w @ pre @
             [Call_clone base', Call_fit r X y (categorical_feature (cat_idx self)),
              Call_dump_model r', Write_file tree_dict_path (json_dump L d),
              Call_order_tree_model_dict d (cat_idx self), Call_GbmModel od,
              Call_std_update s X y (Some g) (cat_idx self)]"
    using f s r p g by simp
  moreover have "files w' = (files w)(tree_dict_path \<mapsto> json_dump L d)"
     "writable w tree_dict_path" "writable w' = writable w"
    using f s r p g by simp_all
  ultimately show ?thesis using p c s1 w1 r s f g by blast
qed

subsection \<open>set\_params through adapters\<close>

lemma with_min_child_samples_idem [simp]:
  "with_min_child_samples (with_min_child_samples ps) = with_min_child_samples ps"
  by (simp add: with_min_child_samples_def)

lemma arriving_params_with_min_child_samples:
  "arriving_params obj (with_min_child_samples ps) =
     (case obj of Instance a \<Rightarrow> with_min_child_samples ps | _ \<Rightarrow> with_min_child_samples ps)"
  by (cases obj) simp_all

lemma set_params_reached:
  "set_params L ps a w =
     (case inner_estimator a of
        None \<Rightarrow> ((a, w), Raises (AttributeError ''NoneType'' ''set_params''))
      | Some b \<Rightarrow>
          (case est_set_params L b (with_min_child_samples ps) of
             Inl e \<Rightarrow> ((a, record_call (Call_set_params b (with_min_child_samples ps)) w), Raises e)
           | Inr b' \<Rightarrow> ((put_inner b' a,
                         record_call (Call_set_params b (with_min_child_samples ps)) w),
                        Returns ())))"
  "call_set_params L ps obj w =
     (case reached_estimator obj of
        None \<Rightarrow> ((obj, w), Raises (AttributeError ''NoneType'' ''set_params''))
      | Some b \<Rightarrow>
          (case est_set_params L b (arriving_params obj ps) of
             Inl e \<Rightarrow> ((obj, record_call (Call_set_params b (arriving_params obj ps)) w), Raises e)
           | Inr b' \<Rightarrow> ((put_reached b' obj,
                         record_call (Call_set_params b (arriving_params obj ps)) w),
                        Returns ())))"
proof (induction L ps a w and L ps obj w rule: set_params_call_set_params.induct)
  case (1 L ps c base std rs ci reg w)
  have ps: "(if ''min_child_samples'' \<notin> set (map fst ps)
             then ps @ [(''min_child_samples'', PInt 2)] else ps) = with_min_child_samples ps"
    by (simp add: with_min_child_samples_def)
  have arr: "arriving_params base (with_min_child_samples ps) = with_min_child_samples ps"
    by (cases base) simp_all
  show ?case
    using "1.IH" [OF refl] unfolding set_params.simps Let_def ps
    by (simp add: arr split: option.splits sum.splits)
next
  case (2 L ps w)
  show ?case by simp
next
  case (3 L ps b w)
  show ?case by (simp split: sum.splits)
next
  case (4 L ps a w)
  show ?case using "4.IH" by (simp split: option.splits sum.splits)
qed

lemma call_set_params_Returns:
  assumes "call_set_params L ps obj w = ((obj', w1), Returns u)"
  shows "\<exists>b b'. reached_estimator obj = Some b \<and>
           est_set_params L b (arriving_params obj ps) = Inr b' \<and>
           obj' = put_reached b' obj \<and>
           w1 = record_call (Call_set_params b (arriving_params obj ps)) w"
  using assms unfolding set_params_reached(2)
  by (auto split: option.splits sum.splits)

lemma reached_vocabulary:
  "reached_estimator (Estimator b0 :: ('b, 's) pyobj) = Some b0"
  "put_reached b' (Estimator b0 :: ('b, 's) pyobj) = Estimator b'"
  "arriving_params (Estimator b0 :: ('b, 's) pyobj) ps = ps"
  "reached_estimator (Instance a) = inner_estimator a"
  "put_reached b' (Instance a) = Instance (put_inner b' a)"
  "inner_estimator a = reached_estimator (base_estimator a)"
  "put_inner b' a = set_base_estimator (put_reached b' (base_estimator a)) a"
  by (simp_all, (cases a; simp)+)

lemma set_params_calls_pinned:
  assumes "call_set_params L ps obj w = ((obj', w\<lparr>calls := calls w @ pre\<rparr>), Returns u)"
  shows "\<exists>b b'. reached_estimator obj = Some b \<and>
           est_set_params L b (arriving_params obj ps) = Inr b' \<and>
           obj' = put_reached b' obj \<and>
           pre = [Call_set_params b (arriving_params obj ps)]"
proof -
  from call_set_params_Returns [OF assms] obtain b b' where
    b: "reached_estimator obj = Some b"
       "est_set_params L b (arriving_params obj ps) = Inr b'"
       "obj' = put_reached b' obj"
       "w\<lparr>calls := calls w @ pre\<rparr> = record_call (Call_set_params b (arriving_params obj ps)) w"
    by blast
  from b(4) have "calls (w\<lparr>calls := calls w @ pre\<rparr>) =
      calls (record_call (Call_set_params b (arriving_params obj ps)) w)"
    by simp
  then have "pre = [Call_set_params b (arriving_params obj ps)]" by simp
  with b(1,2,3) show ?thesis by blast
qed

subsection \<open>The test doubles, run\<close>

lemmas demo_defs = demo_lib_def demo_world_def demo_estimator_def demo_X_def demo_y_def
  demo_std0_def demo_enting_def demo_misic_def
  EntingRegressor_init_def MisicRegressor_init_def

lemma demo_enting_fit:
  "EntingRegressor_fit demo_lib demo_X demo_y (demo_enting, demo_world) =
    ((Adapter EntingRegressor
        (Estimator (Demo_est [(''random_state'', PInt 7), (''verbose'', PInt (- 1))] None))
        (Some (Demo_std 3 False)) (PInt 7) []
        (Some (Demo_est [(''random_state'', PInt 7), (''verbose'', PInt (- 1))] (Some (demo_X, demo_y)))),
      \<lparr> calls =
          [Call_set_params (Demo_est [] None) [(''random_state'', PInt 7), (''verbose'', PInt (- 1))],
           Call_clone (Estimator (Demo_est [(''random_state'', PInt 7), (''verbose'', PInt (- 1))] None)),
           Call_std_update (Demo_std 0 False) demo_X demo_y None [],
           Call_fit (Demo_est [(''random_state'', PInt 7), (''verbose'', PInt (- 1))] None) demo_X demo_y None],
        files = (\<lambda>p. None), writable = (\<lambda>p. True) \<rparr>), Returns ())"
  by (simp add: demo_lib_def demo_world_def demo_estimator_def demo_std0_def demo_enting_def
      EntingRegressor_init_def EntingRegressor_fit_def record_call_def categorical_feature_def
      demo_X_def demo_y_def)

lemma demo_misic_fit:
  "MisicRegressor_fit demo_lib demo_X demo_y (demo_misic, demo_world) =
    ((Adapter MisicRegressor
        (Estimator (Demo_est [(''random_state'', PInt 7), (''verbose'', PInt (- 1))] None))
        (Some (Demo_std 3 True)) (PInt 7) [1]
        (Some (Demo_est [(''random_state'', PInt 7), (''verbose'', PInt (- 1))] (Some (demo_X, demo_y)))),
      \<lparr> calls =
          [Call_set_params (Demo_est [] None) [(''random_state'', PInt 7), (''verbose'', PInt (- 1))],
           Call_clone (Estimator (Demo_est [(''random_state'', PInt 7), (''verbose'', PInt (- 1))] None)),
           Call_fit (Demo_est [(''random_state'', PInt 7), (''verbose'', PInt (- 1))] None) demo_X demo_y (Some [1]),
           Call_dump_model (Demo_est [(''random_state'', PInt 7), (''verbose'', PInt (- 1))] (Some (demo_X, demo_y))),
           Write_file ''tree_dict_next.json'' ''json trees'',
           Call_order_tree_model_dict ''trees'' [1],
           Call_GbmModel ''ordered trees'',
           Call_std_update (Demo_std 0 False) demo_X demo_y (Some ''GbmModel ordered trees'') [1]],
        files = (\<lambda>p. if p = ''tree_dict_next.json'' then Some ''json trees'' else None),
        writable = (\<lambda>p. True) \<rparr>), Returns ())"
  by (simp add: demo_lib_def demo_world_def demo_estimator_def demo_std0_def demo_misic_def
      MisicRegressor_init_def MisicRegressor_fit_def get_gbm_model_def tree_dict_path_def
      record_call_def categorical_feature_def demo_X_def demo_y_def fun_eq_iff)

lemma demo_fit_dispatch:
  "fit demo_lib X y (demo_enting, w) = EntingRegressor_fit demo_lib X y (demo_enting, w)"
  "fit demo_lib X y (demo_misic, w) = MisicRegressor_fit demo_lib X y (demo_misic, w)"
  by (simp_all add: fit_def demo_enting_def demo_misic_def EntingRegressor_init_def
      MisicRegressor_init_def)

lemma demo_lib_sel:
  "est_predict demo_lib = demo_predict"
  "std_predict demo_lib = demo_std_predict"
  "est_fit demo_lib = demo_fit"
  "est_set_params demo_lib = demo_set_params"
  "clone demo_lib = demo_clone"
  "dump_model demo_lib = demo_dump_model"
  "std_update demo_lib = demo_std_update"
  by (simp_all add: demo_lib_def)

lemma demo_lib_rows:
  "\<forall>r X m. est_predict demo_lib r X = Inr m \<longrightarrow> length m = length X"
  "\<forall>s X scaled u. std_predict demo_lib s X scaled = Inr u \<longrightarrow> length u = length X"
proof -
  have "demo_predict r X = Inr m \<Longrightarrow> length m = length X" for r X m
    by (cases "(r, X)" rule: demo_predict.cases) auto
  then show "\<forall>r X m. est_predict demo_lib r X = Inr m \<longrightarrow> length m = length X"
    by (simp add: demo_lib_def)
  show "\<forall>s X scaled u. std_predict demo_lib s X scaled = Inr u \<longrightarrow> length u = length X"
    by (auto simp: demo_lib_def)
qed


subsection \<open>Construction\<close>

lemma base_estimator_not_self: "base_estimator A \<noteq> Instance A"
proof
  assume "base_estimator A = Instance A"
  then have "size (base_estimator A) = size (Instance A)" by simp
  then show False by (cases A) simp
qed

lemma EntingRegressor_init_Instance:
  "EntingRegressor_init (Instance A) std rs ci =
     Adapter EntingRegressor (base_estimator A) (std_estimator A) rs ci None"
  by (cases A; cases "cls_of A") (simp_all add: EntingRegressor_init_def)

lemma MisicRegressor_init_Instance:
  "MisicRegressor_init (Instance A) std rs ci =
     (if cls_of A = MisicRegressor
      then Adapter MisicRegressor (base_estimator A) (std_estimator A) rs ci None
      else Adapter MisicRegressor (Instance A) std rs ci None)"
  by (cases A; cases "cls_of A") (simp_all add: MisicRegressor_init_def)

lemma init_not_instance:
  "\<not> isinstance b EntingRegressor \<Longrightarrow>
     EntingRegressor_init b std rs ci = Adapter EntingRegressor b std rs ci None"
  "\<not> isinstance b MisicRegressor \<Longrightarrow>
     MisicRegressor_init b std rs ci = Adapter MisicRegressor b std rs ci None"
  by (simp_all add: EntingRegressor_init_def MisicRegressor_init_def)

text \<open>
  C3. Constructing an adapter with an adapter \<open>A\<close> of the same variant as
  \<open>base_estimator\<close> stores \<open>A\<close>'s own base estimator and uncertainty estimator (whatever
  uncertainty estimator was passed), and not \<open>A\<close> itself: for \<open>EntingRegressor\<close> with any
  adapter instance \<open>A\<close>, for \<open>MisicRegressor\<close> with any \<open>A\<close> of class \<open>MisicRegressor\<close>.
  A \<open>base_estimator\<close> that is not an instance of the class being constructed is stored as
  given, together with the uncertainty estimator passed. In every case the seed and the
  categorical indices are the arguments and \<open>regressor_\<close> is absent.
\<close>

theorem init_unwraps_same_variant:
  "EntingRegressor_init (Instance A) std rs ci =
     Adapter EntingRegressor (base_estimator A) (std_estimator A) rs ci None
   \<and> base_estimator (EntingRegressor_init (Instance A) std rs ci) \<noteq> Instance A
   \<and> (cls_of A = MisicRegressor \<longrightarrow>
        MisicRegressor_init (Instance A) std rs ci =
          Adapter MisicRegressor (base_estimator A) (std_estimator A) rs ci None
        \<and> base_estimator (MisicRegressor_init (Instance A) std rs ci) \<noteq> Instance A)
   \<and> (\<not> isinstance b EntingRegressor \<longrightarrow>
        EntingRegressor_init b std rs ci = Adapter EntingRegressor b std rs ci None)
   \<and> (\<not> isinstance b MisicRegressor \<longrightarrow>
        MisicRegressor_init b std rs ci = Adapter MisicRegressor b std rs ci None)"
  using base_estimator_not_self [of A]
  by (simp add: EntingRegressor_init_Instance MisicRegressor_init_Instance init_not_instance)

theorem init_unwraps_same_variant_witness:
  "cls_of demo_misic = MisicRegressor
   \<and> \<not> isinstance (Estimator demo_estimator :: (demo_est, demo_std) pyobj) EntingRegressor
   \<and> \<not> isinstance (Estimator demo_estimator :: (demo_est, demo_std) pyobj) MisicRegressor
   \<and> EntingRegressor_init (Instance demo_misic) None PNone [] =
       Adapter EntingRegressor (Estimator demo_estimator) (Some demo_std0) PNone [] None
   \<and> MisicRegressor_init (Instance demo_misic) None PNone [] =
       Adapter MisicRegressor (Estimator demo_estimator) (Some demo_std0) PNone [] None
   \<and> EntingRegressor_init (Estimator demo_estimator) (Some demo_std0) PNone [2] =
       Adapter EntingRegressor (Estimator demo_estimator) (Some demo_std0) PNone [2] None
   \<and> MisicRegressor_init (Estimator demo_estimator) (Some demo_std0) PNone [2] =
       Adapter MisicRegressor (Estimator demo_estimator) (Some demo_std0) PNone [2] None"
  using init_unwraps_same_variant [of demo_misic None PNone "[]" "Estimator demo_estimator"]
        init_unwraps_same_variant [of demo_misic "Some demo_std0" PNone "[2]" "Estimator demo_estimator"]
  by (simp add: demo_misic_def MisicRegressor_init_def)

text \<open>
  C9. Unwrapping is not symmetric between the classes. \<open>EntingRegressor\<close> constructed
  with a \<open>MisicRegressor\<close> instance as \<open>base_estimator\<close> stores that instance's base
  estimator and uncertainty estimator, because a \<open>MisicRegressor\<close> is an instance of
  \<open>EntingRegressor\<close>. \<open>MisicRegressor\<close> constructed with an instance whose class is
  \<open>EntingRegressor\<close> stores the instance itself as its base estimator, with the
  uncertainty estimator that was passed.
\<close>

theorem init_unwrapping_asymmetric:
  "EntingRegressor_init (Instance (Adapter MisicRegressor b s r c reg)) std rs ci =
     Adapter EntingRegressor b s rs ci None
   \<and> MisicRegressor_init (Instance (Adapter EntingRegressor b s r c reg)) std rs ci =
     Adapter MisicRegressor (Instance (Adapter EntingRegressor b s r c reg)) std rs ci None"
  by (simp add: EntingRegressor_init_def MisicRegressor_init_def)

subsection \<open>Before the first fit\<close>

lemma predict_unfitted:
  "regressor self = None \<Longrightarrow>
   predict L X return_std scaled (self, w) =
     ((self, w), Raises (AttributeError (cls_name (cls_of self)) ''regressor_''))"
  by (simp add: predict_def)

text \<open>
  C2, as stated, fails: on an adapter that was never fitted, \<open>predict\<close> and
  \<open>get_gbm_model\<close> do not raise \<open>NotFittedError\<close>. Reading the missing attribute
  \<open>regressor_\<close> raises \<open>AttributeError\<close>.
\<close>

theorem unfitted_predict_counterexample:
  "snd (predict demo_lib demo_X False True (demo_enting, demo_world)) =
     Raises (AttributeError ''EntingRegressor'' ''regressor_'')
   \<and> snd (predict demo_lib demo_X False True (demo_enting, demo_world)) \<noteq> Raises NotFittedError
   \<and> snd (get_gbm_model demo_lib (demo_enting, demo_world)) \<noteq> Raises NotFittedError"
  by (simp add: predict_def get_gbm_model_def demo_enting_def EntingRegressor_init_def)

text \<open>
  C2, amended. On an adapter whose \<open>regressor_\<close> has not been assigned, \<open>predict\<close> (with
  any flags) and \<open>get_gbm_model\<close> raise \<open>AttributeError\<close> for the attribute
  \<open>regressor_\<close> of the instance's class; no collaborator is called, nothing is written
  and the adapter is unchanged. Both constructors leave \<open>regressor_\<close> unassigned.
\<close>

theorem unfitted_raises_AttributeError:
  "(regressor self = None \<longrightarrow>
      predict L X return_std scaled (self, w) =
        ((self, w), Raises (AttributeError (cls_name (cls_of self)) ''regressor_''))
      \<and> get_gbm_model L (self, w) =
        ((self, w), Raises (AttributeError (cls_name (cls_of self)) ''regressor_'')))
   \<and> regressor (EntingRegressor_init base std rs ci) = None
   \<and> regressor (MisicRegressor_init base std rs ci) = None"
  by (simp add: predict_unfitted get_gbm_model_unfitted EntingRegressor_init_def
        MisicRegressor_init_def Let_def split: pyobj.splits)

theorem unfitted_raises_AttributeError_witness:
  "regressor demo_misic = None
   \<and> predict demo_lib demo_X True False (demo_misic, demo_world) =
        ((demo_misic, demo_world), Raises (AttributeError ''MisicRegressor'' ''regressor_''))
   \<and> get_gbm_model demo_lib (demo_misic, demo_world) =
        ((demo_misic, demo_world), Raises (AttributeError ''MisicRegressor'' ''regressor_''))"
  using unfitted_raises_AttributeError [of demo_misic demo_lib demo_X True False demo_world
          "Estimator demo_estimator" "Some demo_std0" "PInt 7" "[1]"]
  by (simp add: demo_misic_def MisicRegressor_init_def)

subsection \<open>set\_params\<close>

text \<open>
  C4. For every adapter and every \<open>ps\<close>, \<open>set_params(**ps)\<close> forwards \<open>ps'\<close>: \<open>ps\<close>
  itself when it has the key \<open>min_child_samples\<close>, and \<open>ps\<close> followed by
  \<open>min_child_samples = 2\<close> when it has not; every other key has in \<open>ps'\<close> the value it
  has in \<open>ps\<close>. Whatever the base estimator is, the outcome is fixed: if following
  \<open>base_estimator\<close> ends at \<open>None\<close>, \<open>AttributeError\<close> is raised and nothing is called or
  changed; if it ends at an external estimator \<open>b\<close>, exactly one call is made,
  \<open>b.set_params(**ps')\<close>, the method raises what that call raises, and otherwise returns
  with \<open>b\<close> as the call left it, in its place. With an external estimator as base
  estimator that place is the base estimator itself; with an adapter it is the place
  reached from that adapter's base estimator.
\<close>

theorem set_params_default:
  "\<exists>ps'. (''min_child_samples'' \<in> fst ` set ps \<longrightarrow> ps' = ps)
     \<and> (''min_child_samples'' \<notin> fst ` set ps \<longrightarrow> ps' = ps @ [(''min_child_samples'', PInt 2)])
     \<and> (\<forall>k. k \<noteq> ''min_child_samples'' \<longrightarrow> map_of ps' k = map_of ps k)
     \<and> (\<forall>v. map_of ps' ''min_child_samples'' = Some v \<longrightarrow>
           v = (case map_of ps ''min_child_samples'' of None \<Rightarrow> PInt 2 | Some u \<Rightarrow> u))
     \<and> set_params L ps self w =
         (case reached_estimator (base_estimator self) of
            None \<Rightarrow> ((self, w), Raises (AttributeError ''NoneType'' ''set_params''))
          | Some b \<Rightarrow>
              (case est_set_params L b ps' of
                 Inl e \<Rightarrow> ((self, record_call (Call_set_params b ps') w), Raises e)
               | Inr b' \<Rightarrow>
                   ((set_base_estimator (put_reached b' (base_estimator self)) self,
                     record_call (Call_set_params b ps') w), Returns ())))
     \<and> (\<forall>b0. base_estimator self = Estimator b0 \<longrightarrow>
           reached_estimator (base_estimator self) = Some b0 \<and>
           (\<forall>b'. put_reached b' (base_estimator self) = Estimator b'))
     \<and> (\<forall>a. base_estimator self = Instance a \<longrightarrow>
           reached_estimator (base_estimator self) = reached_estimator (base_estimator a) \<and>
           (\<forall>b'. put_reached b' (base_estimator self) =
                 Instance (set_base_estimator (put_reached b' (base_estimator a)) a)))"
proof -
  let ?k = "''min_child_samples''"
  let ?ps' = "with_min_child_samples ps"
  have absent: "?k \<notin> fst ` set ps \<Longrightarrow> map_of ps ?k = None"
    by (simp add: map_of_eq_None_iff)
  have present: "?k \<in> fst ` set ps \<Longrightarrow> \<exists>u. map_of ps ?k = Some u"
    by (metis map_of_eq_None_iff not_Some_eq)
  have 1: "?k \<in> fst ` set ps \<longrightarrow> ?ps' = ps"
    and 2: "?k \<notin> fst ` set ps \<longrightarrow> ?ps' = ps @ [(?k, PInt 2)]"
    by (simp_all add: with_min_child_samples_def)
  have 3: "\<forall>k. k \<noteq> ?k \<longrightarrow> map_of ?ps' k = map_of ps k"
    by (simp add: with_min_child_samples_def map_add_def split: option.splits)
  have 4: "\<forall>v. map_of ?ps' ?k = Some v \<longrightarrow>
           v = (case map_of ps ?k of None \<Rightarrow> PInt 2 | Some u \<Rightarrow> u)"
    using absent present
    by (auto simp: with_min_child_samples_def map_add_def split: option.splits)
  have 5: "set_params L ps self w =
         (case reached_estimator (base_estimator self) of
            None \<Rightarrow> ((self, w), Raises (AttributeError ''NoneType'' ''set_params''))
          | Some b \<Rightarrow>
              (case est_set_params L b ?ps' of
                 Inl e \<Rightarrow> ((self, record_call (Call_set_params b ?ps') w), Raises e)
               | Inr b' \<Rightarrow>
                   ((set_base_estimator (put_reached b' (base_estimator self)) self,
                     record_call (Call_set_params b ?ps') w), Returns ())))"
    unfolding set_params_reached(1) reached_vocabulary(6,7) ..
  have 6: "\<forall>b0. base_estimator self = Estimator b0 \<longrightarrow>
           reached_estimator (base_estimator self) = Some b0 \<and>
           (\<forall>b'. put_reached b' (base_estimator self) = Estimator b')"
    by simp
  have 7: "\<forall>a. base_estimator self = Instance a \<longrightarrow>
           reached_estimator (base_estimator self) = reached_estimator (base_estimator a) \<and>
           (\<forall>b'. put_reached b' (base_estimator self) =
                 Instance (set_base_estimator (put_reached b' (base_estimator a)) a))"
    by (simp add: reached_vocabulary(6,7))
  from 1 2 3 4 5 6 7 show ?thesis by (intro exI [of _ ?ps']) blast
qed

theorem set_params_default_witness:
  "calls (snd (fst (set_params demo_lib [(''num_leaves'', PInt 31)] demo_enting demo_world))) =
       [Call_set_params demo_estimator [(''num_leaves'', PInt 31), (''min_child_samples'', PInt 2)]]
   \<and> calls (snd (fst (set_params demo_lib [(''min_child_samples'', PInt 5), (''num_leaves'', PInt 31)]
        demo_enting demo_world))) =
       [Call_set_params demo_estimator [(''min_child_samples'', PInt 5), (''num_leaves'', PInt 31)]]
   \<and> base_estimator demo_misic_nested = Instance demo_enting
   \<and> set_params demo_lib [(''num_leaves'', PInt 31)] demo_misic_nested demo_world =
       ((set_base_estimator
           (Instance (set_base_estimator
              (Estimator (Demo_est [(''num_leaves'', PInt 31), (''min_child_samples'', PInt 2)] None))
              demo_enting))
           demo_misic_nested,
         record_call (Call_set_params demo_estimator
           [(''num_leaves'', PInt 31), (''min_child_samples'', PInt 2)]) demo_world),
        Returns ())"
proof -
  have "calls demo_world = []"
    by (simp add: demo_world_def)
  with set_params_default [of "[(''num_leaves'', PInt 31)]" demo_lib demo_enting demo_world]
     set_params_default [of "[(''min_child_samples'', PInt 5), (''num_leaves'', PInt 31)]"
        demo_lib demo_enting demo_world]
     set_params_default [of "[(''num_leaves'', PInt 31)]" demo_lib demo_misic_nested demo_world]
  show ?thesis
    by (auto simp: demo_enting_def demo_misic_nested_def EntingRegressor_init_def
        MisicRegressor_init_def demo_lib_sel demo_estimator_def record_call_def Let_def)
qed

subsection \<open>get\_gbm\_model\<close>

text \<open>
  C5. On an adapter whose \<open>regressor_\<close> is \<open>r\<close>, when \<open>r\<close>'s model can be dumped and
  the path can be opened for writing, \<open>get_gbm_model\<close> leaves in the file
  \<open>tree_dict_next.json\<close> the JSON text of the dumped dictionary \<open>d\<close>, whatever happens
  afterwards and with no option to switch it off. The write comes after the dump and before
  \<open>order_tree_model_dict\<close> is called on the same \<open>d\<close>; the value returned is the
  \<open>GbmModel\<close> built from the ordered dictionary. No other file and no attribute of the
  adapter changes.
\<close>

theorem export_writes_file:
  "regressor self = Some r \<and> dump_model L r = Inr d \<and> writable w tree_dict_path \<longrightarrow>
     tree_dict_path = ''tree_dict_next.json''
     \<and> (\<exists>w' out rest.
           get_gbm_model L (self, w) = ((self, w'), out) \<and>
           files w' = (files w)(tree_dict_path \<mapsto> json_dump L d) \<and>
           calls w' = calls w @ [Call_dump_model r, Write_file tree_dict_path (json_dump L d),
                                 Call_order_tree_model_dict d (cat_idx self)] @ rest \<and>
           (case order_tree_model_dict L d (cat_idx self) of
              Inl e \<Rightarrow> out = Raises e \<and> rest = []
            | Inr od \<Rightarrow> rest = [Call_GbmModel od] \<and>
                (case GbmModel L od of Inl e \<Rightarrow> out = Raises e | Inr g \<Rightarrow> out = Returns g)))"
proof
  assume a: "regressor self = Some r \<and> dump_model L r = Inr d \<and> writable w tree_dict_path"
  from get_gbm_model_fitted [of self r L d w] a
  show "tree_dict_path = ''tree_dict_next.json''
     \<and> (\<exists>w' out rest.
           get_gbm_model L (self, w) = ((self, w'), out) \<and>
           files w' = (files w)(tree_dict_path \<mapsto> json_dump L d) \<and>
           calls w' = calls w @ [Call_dump_model r, Write_file tree_dict_path (json_dump L d),
                                 Call_order_tree_model_dict d (cat_idx self)] @ rest \<and>
           (case order_tree_model_dict L d (cat_idx self) of
              Inl e \<Rightarrow> out = Raises e \<and> rest = []
            | Inr od \<Rightarrow> rest = [Call_GbmModel od] \<and>
                (case GbmModel L od of Inl e \<Rightarrow> out = Raises e | Inr g \<Rightarrow> out = Returns g)))"
    by (simp add: tree_dict_path_def) blast
qed

theorem export_writes_file_witness:
  "regressor demo_fitted = Some (Demo_est [] (Some (demo_X, demo_y)))
   \<and> dump_model demo_lib (Demo_est [] (Some (demo_X, demo_y))) = Inr ''trees''
   \<and> writable demo_world tree_dict_path
   \<and> files (snd (fst (get_gbm_model demo_lib (demo_fitted, demo_world)))) ''tree_dict_next.json'' =
       Some ''json trees''
   \<and> calls (snd (fst (get_gbm_model demo_lib (demo_fitted, demo_world)))) =
       [Call_dump_model (Demo_est [] (Some (demo_X, demo_y))),
        Write_file ''tree_dict_next.json'' ''json trees'',
        Call_order_tree_model_dict ''trees'' [], Call_GbmModel ''ordered trees'']
   \<and> snd (get_gbm_model demo_lib (demo_fitted, demo_world)) = Returns ''GbmModel ordered trees''"
  using export_writes_file [of demo_fitted "Demo_est [] (Some (demo_X, demo_y))" demo_lib "''trees''" demo_world]
  by (simp add: demo_defs demo_fitted_def get_gbm_model_def tree_dict_path_def)

subsection \<open>The order of the calls in fit\<close>

text \<open>
  C1. When \<open>EntingRegressor.fit\<close> returns, the calls it made are, in this order: one
  \<open>set_params\<close> call on the estimator reached from the base estimator, \<open>clone\<close>,
  \<open>std_estimator.update(X, y, cat_column=cat_idx)\<close> with no tree model, and the fit of
  the clone; the uncertainty estimator of the adapter is then what that update returned,
  and \<open>regressor_\<close> the fitted clone. Whether it returns or raises, none of its calls
  passes a tree model to the uncertainty estimator. When \<open>MisicRegressor.fit\<close> returns,
  the calls are: the \<open>set_params\<close> call, \<open>clone\<close>, the fit of the clone, the dump of the
  fitted clone, the file write, \<open>order_tree_model_dict\<close>, \<open>GbmModel\<close>, and last
  \<open>std_estimator.update(X, y, g, cat_column=cat_idx)\<close> with the \<open>GbmModel\<close> \<open>g\<close> just
  built; the uncertainty estimator of the adapter is then what that update returned.
\<close>

theorem fit_update_order:
  "(EntingRegressor_fit L X y (selfA, w) = ((selfA', wA), Returns ()) \<longrightarrow>
      (\<exists>pre base' r s b b' s' r'.
         calls wA = calls w @ pre @
           [Call_clone base', Call_std_update s X y None (cat_idx selfA),
            Call_fit r X y (categorical_feature (cat_idx selfA))] \<and>
         list_all is_set_params_call pre \<and> std_estimator selfA = Some s \<and> clone L base' = Inr r \<and>
         pre = [Call_set_params b (arriving_params (base_estimator selfA)
                  [(''random_state'', random_state selfA), (''verbose'', PInt (- 1))])] \<and>
         reached_estimator (base_estimator selfA) = Some b \<and>
         est_set_params L b (arriving_params (base_estimator selfA)
            [(''random_state'', random_state selfA), (''verbose'', PInt (- 1))]) = Inr b' \<and>
         base' = put_reached b' (base_estimator selfA) \<and>
         base_estimator selfA' = base' \<and>
         std_update L s X y None (cat_idx selfA) = Inr s' \<and>
         std_estimator selfA' = Some s' \<and>
         est_fit L r X y (categorical_feature (cat_idx selfA)) = Inr r' \<and>
         regressor selfA' = Some r'))
   \<and> (\<exists>es. calls (snd (fst (EntingRegressor_fit L X y (selfA, w)))) = calls w @ es \<and>
         \<not> list_ex passes_tree_model es)
   \<and> (MisicRegressor_fit L X y (selfB, w) = ((selfB', wB), Returns ()) \<longrightarrow>
      (\<exists>pre base' r r' d od g s b b' s'.
         calls wB = calls w @ pre @
           [Call_clone base', Call_fit r X y (categorical_feature (cat_idx selfB)),
            Call_dump_model r', Write_file tree_dict_path (json_dump L d),
            Call_order_tree_model_dict d (cat_idx selfB), Call_GbmModel od,
            Call_std_update s X y (Some g) (cat_idx selfB)] \<and>
         list_all is_set_params_call pre \<and> clone L base' = Inr r \<and>
         est_fit L r X y (categorical_feature (cat_idx selfB)) = Inr r' \<and>
         dump_model L r' = Inr d \<and>
         order_tree_model_dict L d (cat_idx selfB) = Inr od \<and> GbmModel L od = Inr g \<and>
         std_estimator selfB = Some s \<and>
         pre = [Call_set_params b (arriving_params (base_estimator selfB)
                  [(''random_state'', random_state selfB), (''verbose'', PInt (- 1))])] \<and>
         reached_estimator (base_estimator selfB) = Some b \<and>
         est_set_params L b (arriving_params (base_estimator selfB)
            [(''random_state'', random_state selfB), (''verbose'', PInt (- 1))]) = Inr b' \<and>
         base' = put_reached b' (base_estimator selfB) \<and>
         base_estimator selfB' = base' \<and>
         std_update L s X y (Some g) (cat_idx selfB) = Inr s' \<and>
         std_estimator selfB' = Some s' \<and>
         regressor selfB' = Some r'))"
proof (intro conjI impI)
  let ?ps = "[(''random_state'', random_state selfA), (''verbose'', PInt (- 1))]"
  assume "EntingRegressor_fit L X y (selfA, w) = ((selfA', wA), Returns ())"
  from EntingRegressor_fit_Returns [OF this] obtain pre base' r r' s s' where
    h: "calls wA = calls w @ pre @
             [Call_clone base', Call_std_update s X y None (cat_idx selfA),
              Call_fit r X y (categorical_feature (cat_idx selfA))]"
       "list_all is_set_params_call pre"
       "call_set_params L ?ps (base_estimator selfA) w =
          ((base', w\<lparr>calls := calls w @ pre\<rparr>), Returns ())"
       "clone L base' = Inr r"
       "std_estimator selfA = Some s" "std_update L s X y None (cat_idx selfA) = Inr s'"
       "est_fit L r X y (categorical_feature (cat_idx selfA)) = Inr r'"
       "selfA' = Adapter (cls_of selfA) base' (Some s') (random_state selfA) (cat_idx selfA) (Some r')"
    by blast
  from set_params_calls_pinned [OF h(3)] obtain b b' where
    b: "reached_estimator (base_estimator selfA) = Some b"
       "est_set_params L b (arriving_params (base_estimator selfA) ?ps) = Inr b'"
       "base' = put_reached b' (base_estimator selfA)"
       "pre = [Call_set_params b (arriving_params (base_estimator selfA) ?ps)]"
    by blast
  from h(8) have a: "base_estimator selfA' = base'" "std_estimator selfA' = Some s'"
    "regressor selfA' = Some r'" by simp_all
  from h(1,2,4,5,6,7) b a
  show "\<exists>pre base' r s b b' s' r'.
         calls wA = calls w @ pre @
           [Call_clone base', Call_std_update s X y None (cat_idx selfA),
            Call_fit r X y (categorical_feature (cat_idx selfA))] \<and>
         list_all is_set_params_call pre \<and> std_estimator selfA = Some s \<and> clone L base' = Inr r \<and>
         pre = [Call_set_params b (arriving_params (base_estimator selfA) ?ps)] \<and>
         reached_estimator (base_estimator selfA) = Some b \<and>
         est_set_params L b (arriving_params (base_estimator selfA) ?ps) = Inr b' \<and>
         base' = put_reached b' (base_estimator selfA) \<and>
         base_estimator selfA' = base' \<and>
         std_update L s X y None (cat_idx selfA) = Inr s' \<and>
         std_estimator selfA' = Some s' \<and>
         est_fit L r X y (categorical_feature (cat_idx selfA)) = Inr r' \<and>
         regressor selfA' = Some r'"
    by blast
next
  obtain a' w' out where "EntingRegressor_fit L X y (selfA, w) = ((a', w'), out)"
    by (metis prod.exhaust)
  from EntingRegressor_fit_frame(1) [OF this] this
  show "\<exists>es. calls (snd (fst (EntingRegressor_fit L X y (selfA, w)))) = calls w @ es \<and>
         \<not> list_ex passes_tree_model es"
    by (auto simp: list_ex_iff list_all_iff)
next
  let ?ps = "[(''random_state'', random_state selfB), (''verbose'', PInt (- 1))]"
  assume "MisicRegressor_fit L X y (selfB, w) = ((selfB', wB), Returns ())"
  from MisicRegressor_fit_Returns [OF this] obtain pre base' r r' d od g s s' where
    h: "calls wB = calls w @ pre @
             [Call_clone base', Call_fit r X y (categorical_feature (cat_idx selfB)),
              Call_dump_model r', Write_file tree_dict_path (json_dump L d),
              Call_order_tree_model_dict d (cat_idx selfB), Call_GbmModel od,
              Call_std_update s X y (Some g) (cat_idx selfB)]"
       "list_all is_set_params_call pre"
       "call_set_params L ?ps (base_estimator selfB) w =
          ((base', w\<lparr>calls := calls w @ pre\<rparr>), Returns ())"
       "clone L base' = Inr r"
       "est_fit L r X y (categorical_feature (cat_idx selfB)) = Inr r'"
       "dump_model L r' = Inr d"
       "order_tree_model_dict L d (cat_idx selfB) = Inr od" "GbmModel L od = Inr g"
       "std_estimator selfB = Some s" "std_update L s X y (Some g) (cat_idx selfB) = Inr s'"
       "selfB' = Adapter (cls_of selfB) base' (Some s') (random_state selfB) (cat_idx selfB) (Some r')"
    by blast
  from set_params_calls_pinned [OF h(3)] obtain b b' where
    b: "reached_estimator (base_estimator selfB) = Some b"
       "est_set_params L b (arriving_params (base_estimator selfB) ?ps) = Inr b'"
       "base' = put_reached b' (base_estimator selfB)"
       "pre = [Call_set_params b (arriving_params (base_estimator selfB) ?ps)]"
    by blast
  from h(11) have a: "base_estimator selfB' = base'" "std_estimator selfB' = Some s'"
    "regressor selfB' = Some r'" by simp_all
  from h(1,2,4,5,6,7,8,9,10) b a
  show "\<exists>pre base' r r' d od g s b b' s'.
         calls wB = calls w @ pre @
           [Call_clone base', Call_fit r X y (categorical_feature (cat_idx selfB)),
            Call_dump_model r', Write_file tree_dict_path (json_dump L d),
            Call_order_tree_model_dict d (cat_idx selfB), Call_GbmModel od,
            Call_std_update s X y (Some g) (cat_idx selfB)] \<and>
         list_all is_set_params_call pre \<and> clone L base' = Inr r \<and>
         est_fit L r X y (categorical_feature (cat_idx selfB)) = Inr r' \<and>
         dump_model L r' = Inr d \<and>
         order_tree_model_dict L d (cat_idx selfB) = Inr od \<and> GbmModel L od = Inr g \<and>
         std_estimator selfB = Some s \<and>
         pre = [Call_set_params b (arriving_params (base_estimator selfB) ?ps)] \<and>
         reached_estimator (base_estimator selfB) = Some b \<and>
         est_set_params L b (arriving_params (base_estimator selfB) ?ps) = Inr b' \<and>
         base' = put_reached b' (base_estimator selfB) \<and>
         base_estimator selfB' = base' \<and>
         std_update L s X y (Some g) (cat_idx selfB) = Inr s' \<and>
         std_estimator selfB' = Some s' \<and>
         regressor selfB' = Some r'"
    by blast
qed

theorem fit_update_order_witness:
  "snd (EntingRegressor_fit demo_lib demo_X demo_y (demo_enting, demo_world)) = Returns ()
   \<and> calls (snd (fst (EntingRegressor_fit demo_lib demo_X demo_y (demo_enting, demo_world)))) =
       [Call_set_params (Demo_est [] None) [(''random_state'', PInt 7), (''verbose'', PInt (- 1))],
        Call_clone (Estimator (Demo_est [(''random_state'', PInt 7), (''verbose'', PInt (- 1))] None)),
        Call_std_update (Demo_std 0 False) demo_X demo_y None [],
        Call_fit (Demo_est [(''random_state'', PInt 7), (''verbose'', PInt (- 1))] None) demo_X demo_y None]
   \<and> std_estimator demo_enting = Some (Demo_std 0 False)
   \<and> std_estimator (fst (fst (EntingRegressor_fit demo_lib demo_X demo_y (demo_enting, demo_world)))) =
       Some (Demo_std 3 False)
   \<and> snd (MisicRegressor_fit demo_lib demo_X demo_y (demo_misic, demo_world)) = Returns ()
   \<and> calls (snd (fst (MisicRegressor_fit demo_lib demo_X demo_y (demo_misic, demo_world)))) =
       [Call_set_params (Demo_est [] None) [(''random_state'', PInt 7), (''verbose'', PInt (- 1))],
        Call_clone (Estimator (Demo_est [(''random_state'', PInt 7), (''verbose'', PInt (- 1))] None)),
        Call_fit (Demo_est [(''random_state'', PInt 7), (''verbose'', PInt (- 1))] None) demo_X demo_y (Some [1]),
        Call_dump_model (Demo_est [(''random_state'', PInt 7), (''verbose'', PInt (- 1))] (Some (demo_X, demo_y))),
        Write_file ''tree_dict_next.json'' ''json trees'',
        Call_order_tree_model_dict ''trees'' [1],
        Call_GbmModel ''ordered trees'',
        Call_std_update (Demo_std 0 False) demo_X demo_y (Some ''GbmModel ordered trees'') [1]]
   \<and> std_estimator (fst (fst (MisicRegressor_fit demo_lib demo_X demo_y (demo_misic, demo_world)))) =
       Some (Demo_std 3 True)"
proof -
  have "std_estimator demo_enting = Some (Demo_std 0 False)"
    by (simp add: demo_enting_def EntingRegressor_init_def demo_std0_def)
  with fit_update_order [of demo_lib demo_X demo_y demo_enting demo_world
      "fst (fst (EntingRegressor_fit demo_lib demo_X demo_y (demo_enting, demo_world)))"
      "snd (fst (EntingRegressor_fit demo_lib demo_X demo_y (demo_enting, demo_world)))"
      demo_misic
      "fst (fst (MisicRegressor_fit demo_lib demo_X demo_y (demo_misic, demo_world)))"
      "snd (fst (MisicRegressor_fit demo_lib demo_X demo_y (demo_misic, demo_world)))"]
  show ?thesis
    by (simp add: demo_enting_fit demo_misic_fit)
qed



subsection \<open>What fit leaves on the adapter\<close>

lemma fit_Returns:
  assumes "fit L X y (self, w) = ((self', w'), Returns ())"
  shows "\<exists>pre post base' r r' s'.
           call_set_params L [(''random_state'', random_state self), (''verbose'', PInt (- 1))]
              (base_estimator self) w = ((base', w\<lparr>calls := calls w @ pre\<rparr>), Returns ()) \<and>
           clone L base' = Inr r \<and>
           est_fit L r X y (categorical_feature (cat_idx self)) = Inr r' \<and>
           self' = Adapter (cls_of self) base' (Some s') (random_state self) (cat_idx self) (Some r') \<and>
           calls w' = calls w @ pre @ Call_clone base' # post \<and>
           Call_fit r X y (categorical_feature (cat_idx self)) \<in> set post"
proof (cases "cls_of self")
  case EntingRegressor
  with assms have "EntingRegressor_fit L X y (self, w) = ((self', w'), Returns ())"
    by (simp add: fit_def)
  from EntingRegressor_fit_Returns [OF this] obtain pre base' r r' s s' where
    h: "calls w' = calls w @ pre @
             [Call_clone base', Call_std_update s X y None (cat_idx self),
              Call_fit r X y (categorical_feature (cat_idx self))]"
       "call_set_params L [(''random_state'', random_state self), (''verbose'', PInt (- 1))]
              (base_estimator self) w = ((base', w\<lparr>calls := calls w @ pre\<rparr>), Returns ())"
       "clone L base' = Inr r"
       "est_fit L r X y (categorical_feature (cat_idx self)) = Inr r'"
       "self' = Adapter (cls_of self) base' (Some s') (random_state self) (cat_idx self) (Some r')"
    by blast
  let ?post = "[Call_std_update s X y None (cat_idx self),
              Call_fit r X y (categorical_feature (cat_idx self))]"
  have "calls w' = calls w @ pre @ Call_clone base' # ?post"
    and "Call_fit r X y (categorical_feature (cat_idx self)) \<in> set ?post"
    using h(1) by simp_all
  with h show ?thesis by blast
next
  case MisicRegressor
  with assms have "MisicRegressor_fit L X y (self, w) = ((self', w'), Returns ())"
    by (simp add: fit_def)
  from MisicRegressor_fit_Returns [OF this] obtain pre base' r r' d od g s s' where
    h: "calls w' = calls w @ pre @
             [Call_clone base', Call_fit r X y (categorical_feature (cat_idx self)),
              Call_dump_model r', Write_file tree_dict_path (json_dump L d),
              Call_order_tree_model_dict d (cat_idx self), Call_GbmModel od,
              Call_std_update s X y (Some g) (cat_idx self)]"
       "call_set_params L [(''random_state'', random_state self), (''verbose'', PInt (- 1))]
              (base_estimator self) w = ((base', w\<lparr>calls := calls w @ pre\<rparr>), Returns ())"
       "clone L base' = Inr r"
       "est_fit L r X y (categorical_feature (cat_idx self)) = Inr r'"
       "self' = Adapter (cls_of self) base' (Some s') (random_state self) (cat_idx self) (Some r')"
    by blast
  let ?post = "[Call_fit r X y (categorical_feature (cat_idx self)),
              Call_dump_model r', Write_file tree_dict_path (json_dump L d),
              Call_order_tree_model_dict d (cat_idx self), Call_GbmModel od,
              Call_std_update s X y (Some g) (cat_idx self)]"
  have "calls w' = calls w @ pre @ Call_clone base' # ?post"
    and "Call_fit r X y (categorical_feature (cat_idx self)) \<in> set ?post"
    using h(1) by simp_all
  with h show ?thesis by blast
qed





subsection \<open>predict\<close>

lemma predict_fitted:
  assumes "regressor self = Some r" and "est_predict L r X = Inr m"
  shows "predict L X False scaled (self, w) =
           ((self, record_call (Call_predict r X) w), Returns (Mean m))"
    and "std_estimator self = Some s \<Longrightarrow> std_predict L s X scaled = Inr u \<Longrightarrow>
         predict L X True scaled (self, w) =
           ((self, record_call (Call_std_predict s X scaled) (record_call (Call_predict r X) w)),
            Returns (Mean_std m u))"
  using assms by (simp_all add: predict_def)

lemma predict_propagates:
  assumes "regressor self = Some r" and "est_predict L r X = Inl e"
  shows "predict L X return_std scaled (self, w) =
           ((self, record_call (Call_predict r X) w), Raises e)"
  using assms by (simp add: predict_def)

text \<open>
  C7. Let the ensemble's and the uncertainty estimator's \<open>predict\<close> return one value per
  row whenever they return. After a \<open>fit\<close> that returned, whenever the fitted ensemble
  predicts \<open>m\<close> on \<open>X'\<close>: \<open>predict(X')\<close> returns \<open>m\<close>, of length the number of rows of
  \<open>X'\<close>; and \<open>predict(X', return_std=True, scaled=scaled)\<close> returns the pair of \<open>m\<close> and
  of what \<open>std_estimator.predict(X', scaled=scaled)\<close> returns, of the same length. The
  adapter is not changed.
\<close>

theorem predict_after_fit:
  "(\<forall>r X m. est_predict L r X = Inr m \<longrightarrow> length m = length X) \<and>
   (\<forall>s X scaled u. std_predict L s X scaled = Inr u \<longrightarrow> length u = length X) \<and>
   fit L X y (self, w) = ((self', w'), Returns ()) \<longrightarrow>
     (\<exists>r' s'. regressor self' = Some r' \<and> std_estimator self' = Some s' \<and>
        (\<forall>X' scaled w2 m. est_predict L r' X' = Inr m \<longrightarrow>
           predict L X' False scaled (self', w2) =
             ((self', record_call (Call_predict r' X') w2), Returns (Mean m)) \<and>
           length m = length X' \<and>
           (\<forall>u. std_predict L s' X' scaled = Inr u \<longrightarrow>
              predict L X' True scaled (self', w2) =
                ((self', record_call (Call_std_predict s' X' scaled)
                           (record_call (Call_predict r' X') w2)),
                 Returns (Mean_std m u)) \<and>
              length u = length m)))"
proof (intro impI, elim conjE)
  assume cp: "\<forall>r X m. est_predict L r X = Inr m \<longrightarrow> length m = length X"
    and cs: "\<forall>s X scaled u. std_predict L s X scaled = Inr u \<longrightarrow> length u = length X"
    and f: "fit L X y (self, w) = ((self', w'), Returns ())"
  from fit_Returns [OF f] obtain base' r' s' where
    a: "self' = Adapter (cls_of self) base' (Some s') (random_state self) (cat_idx self) (Some r')"
    by blast
  then have rs: "regressor self' = Some r'" "std_estimator self' = Some s'" by simp_all
  have "\<forall>X' scaled w2 m. est_predict L r' X' = Inr m \<longrightarrow>
           predict L X' False scaled (self', w2) =
             ((self', record_call (Call_predict r' X') w2), Returns (Mean m)) \<and>
           length m = length X' \<and>
           (\<forall>u. std_predict L s' X' scaled = Inr u \<longrightarrow>
              predict L X' True scaled (self', w2) =
                ((self', record_call (Call_std_predict s' X' scaled)
                           (record_call (Call_predict r' X') w2)),
                 Returns (Mean_std m u)) \<and>
              length u = length m)"
  proof (intro allI impI conjI)
    fix X' scaled w2 m
    assume m: "est_predict L r' X' = Inr m"
    show "predict L X' False scaled (self', w2) =
             ((self', record_call (Call_predict r' X') w2), Returns (Mean m))"
      using predict_fitted(1) [OF rs(1) m] .
    show lm: "length m = length X'" using cp m by blast
    fix u
    assume u: "std_predict L s' X' scaled = Inr u"
    show "predict L X' True scaled (self', w2) =
                ((self', record_call (Call_std_predict s' X' scaled)
                           (record_call (Call_predict r' X') w2)),
                 Returns (Mean_std m u))"
      using predict_fitted(2) [OF rs(1) m rs(2) u] .
    show "length u = length m" using cs u lm by (metis)
  qed
  with rs show "\<exists>r' s'. regressor self' = Some r' \<and> std_estimator self' = Some s' \<and>
        (\<forall>X' scaled w2 m. est_predict L r' X' = Inr m \<longrightarrow>
           predict L X' False scaled (self', w2) =
             ((self', record_call (Call_predict r' X') w2), Returns (Mean m)) \<and>
           length m = length X' \<and>
           (\<forall>u. std_predict L s' X' scaled = Inr u \<longrightarrow>
              predict L X' True scaled (self', w2) =
                ((self', record_call (Call_std_predict s' X' scaled)
                           (record_call (Call_predict r' X') w2)),
                 Returns (Mean_std m u)) \<and>
              length u = length m))"
    by blast
qed

theorem predict_after_fit_witness:
  "snd (fit demo_lib demo_X demo_y (demo_enting, demo_world)) = Returns ()
   \<and> snd (predict demo_lib [[7, 8], [9, 10]] False True
        (fst (fst (fit demo_lib demo_X demo_y (demo_enting, demo_world))), demo_world)) =
       Returns (Mean [0, 0])
   \<and> snd (predict demo_lib [[7, 8], [9, 10]] True False
        (fst (fst (fit demo_lib demo_X demo_y (demo_enting, demo_world))), demo_world)) =
       Returns (Mean_std [0, 0] [2, 2])
   \<and> snd (fit demo_lib demo_X demo_y (demo_misic, demo_world)) = Returns ()
   \<and> snd (predict demo_lib [[7, 8], [9, 10]] True True
        (fst (fst (fit demo_lib demo_X demo_y (demo_misic, demo_world))), demo_world)) =
       Returns (Mean_std [0, 0] [1, 1])"
  using demo_lib_rows
    predict_after_fit [of demo_lib demo_X demo_y demo_enting demo_world
      "fst (fst (fit demo_lib demo_X demo_y (demo_enting, demo_world)))"
      "snd (fst (fit demo_lib demo_X demo_y (demo_enting, demo_world)))"]
    predict_after_fit [of demo_lib demo_X demo_y demo_misic demo_world
      "fst (fst (fit demo_lib demo_X demo_y (demo_misic, demo_world)))"
      "snd (fst (fit demo_lib demo_X demo_y (demo_misic, demo_world)))"]
  by (simp add: demo_fit_dispatch demo_enting_fit demo_misic_fit predict_def demo_lib_sel)

subsection \<open>Missing collaborators and failing collaborators\<close>

lemma fit_no_base:
  "base_estimator self = PyNone \<Longrightarrow>
   fit L X y (self, w) = ((self, w), Raises (AttributeError ''NoneType'' ''set_params''))"
  by (cases self) (simp add: fit_def EntingRegressor_fit_def MisicRegressor_fit_def split: cls.splits)

lemma EntingRegressor_fit_no_std:
  assumes "base_estimator self = Estimator b" and "std_estimator self = None"
    and "est_set_params L b [(''random_state'', random_state self), (''verbose'', PInt (- 1))] = Inr b'"
    and "clone L (Estimator b') = Inr r"
  shows "EntingRegressor_fit L X y (self, w) =
     ((set_regressor (Some r) (set_base_estimator (Estimator b') self),
       record_call (Call_clone (Estimator b'))
         (record_call (Call_set_params b
            [(''random_state'', random_state self), (''verbose'', PInt (- 1))]) w)),
      Raises (AttributeError ''NoneType'' ''update''))"
  using assms by (simp add: EntingRegressor_fit_def)

lemma MisicRegressor_fit_no_std:
  assumes "base_estimator self = Estimator b" and "std_estimator self = None"
    and "est_set_params L b [(''random_state'', random_state self), (''verbose'', PInt (- 1))] = Inr b'"
    and "clone L (Estimator b') = Inr r"
    and "est_fit L r X y (categorical_feature (cat_idx self)) = Inr r'"
    and "dump_model L r' = Inr d" and "writable w tree_dict_path"
    and "order_tree_model_dict L d (cat_idx self) = Inr od" and "GbmModel L od = Inr g"
  shows "MisicRegressor_fit L X y (self, w) =
     ((set_regressor (Some r') (set_base_estimator (Estimator b') self),
       w\<lparr>calls := calls w @
            [Call_set_params b [(''random_state'', random_state self), (''verbose'', PInt (- 1))],
             Call_clone (Estimator b'),
             Call_fit r X y (categorical_feature (cat_idx self)),
             Call_dump_model r', Write_file tree_dict_path (json_dump L d),
             Call_order_tree_model_dict d (cat_idx self), Call_GbmModel od],
          files := (files w)(tree_dict_path \<mapsto> json_dump L d)\<rparr>),
      Raises (AttributeError ''NoneType'' ''update''))"
proof -
  have eq: "set_regressor (Some r') (set_regressor (Some r) (set_base_estimator (Estimator b') self)) =
            set_regressor (Some r') (set_base_estimator (Estimator b') self)"
    by (cases self) simp
  from assms show ?thesis
    by (simp add: MisicRegressor_fit_def get_gbm_model_def record_call_def eq)
qed

lemma fit_propagates:
  assumes "base_estimator self = Estimator b"
    and "est_set_params L b [(''random_state'', random_state self), (''verbose'', PInt (- 1))] = Inr b'"
    and "clone L (Estimator b') = Inr r"
    and "est_fit L r X y (categorical_feature (cat_idx self)) = Inl e"
    and "cls_of self = EntingRegressor \<Longrightarrow>
           \<exists>s s'. std_estimator self = Some s \<and> std_update L s X y None (cat_idx self) = Inr s'"
  shows "snd (fit L X y (self, w)) = Raises e"
proof (cases "cls_of self")
  case EntingRegressor
  with assms(5) obtain s s' where
    "std_estimator self = Some s" "std_update L s X y None (cat_idx self) = Inr s'" by blast
  with assms(1-4) EntingRegressor show ?thesis
    by (simp add: fit_def EntingRegressor_fit_def)
next
  case MisicRegressor
  with assms(1-4) show ?thesis
    by (simp add: fit_def MisicRegressor_fit_def)
qed

lemmas demo_run = demo_defs demo_no_base_def demo_enting_no_std_def demo_misic_no_std_def
  fit_def EntingRegressor_fit_def MisicRegressor_fit_def get_gbm_model_def predict_def
  record_call_def categorical_feature_def tree_dict_path_def

text \<open>
  C8, as stated, fails: with the base estimator left at \<open>None\<close>, \<open>fit\<close> raises
  \<open>AttributeError\<close>, not \<open>ConfigurationError\<close>; so it does with only the uncertainty
  estimator left at \<open>None\<close>.
\<close>

theorem fit_missing_collaborator_counterexample:
  "snd (fit demo_lib demo_X demo_y (demo_no_base, demo_world)) =
     Raises (AttributeError ''NoneType'' ''set_params'')
   \<and> snd (fit demo_lib demo_X demo_y (demo_no_base, demo_world)) \<noteq> Raises ConfigurationError
   \<and> snd (fit demo_lib demo_X demo_y (demo_enting_no_std, demo_world)) \<noteq> Raises ConfigurationError"
  by (simp add: fit_def EntingRegressor_fit_def demo_no_base_def demo_enting_no_std_def
      EntingRegressor_init_def demo_lib_sel demo_estimator_def)

text \<open>
  C8, amended. With the base estimator \<open>None\<close>, \<open>fit\<close> raises \<open>AttributeError\<close>
  (\<open>None\<close> has no \<open>set_params\<close>) before any collaborator is called and leaves the adapter
  as it was. With an external base estimator and the uncertainty estimator \<open>None\<close>,
  \<open>fit\<close> raises \<open>AttributeError\<close> (\<open>None\<close> has no \<open>update\<close>) only when it reaches the
  update: in \<open>EntingRegressor\<close> after \<open>set_params\<close> and \<open>clone\<close>, with \<open>regressor_\<close>
  the unfitted clone; in \<open>MisicRegressor\<close> after the clone has been fitted and exported,
  the file written. An exception raised by the ensemble's \<open>fit\<close> leaves \<open>fit\<close> as it
  is, and one raised by its \<open>predict\<close> leaves \<open>predict\<close> as it is.
\<close>

theorem fit_missing_collaborator:
  "(base_estimator self = PyNone \<longrightarrow>
      fit L X y (self, w) = ((self, w), Raises (AttributeError ''NoneType'' ''set_params'')))
   \<and> (base_estimator self = Estimator b \<and> std_estimator self = None \<and>
       est_set_params L b [(''random_state'', random_state self), (''verbose'', PInt (- 1))] = Inr b' \<and>
       clone L (Estimator b') = Inr r \<longrightarrow>
        (cls_of self = EntingRegressor \<longrightarrow>
           fit L X y (self, w) =
             ((set_regressor (Some r) (set_base_estimator (Estimator b') self),
               w\<lparr>calls := calls w @
                  [Call_set_params b [(''random_state'', random_state self), (''verbose'', PInt (- 1))],
                   Call_clone (Estimator b')]\<rparr>),
              Raises (AttributeError ''NoneType'' ''update'')))
        \<and> (cls_of self = MisicRegressor \<and>
            est_fit L r X y (categorical_feature (cat_idx self)) = Inr r' \<and>
            dump_model L r' = Inr d \<and> writable w tree_dict_path \<and>
            order_tree_model_dict L d (cat_idx self) = Inr od \<and> GbmModel L od = Inr g \<longrightarrow>
           fit L X y (self, w) =
             ((set_regressor (Some r') (set_base_estimator (Estimator b') self),
               w\<lparr>calls := calls w @
                    [Call_set_params b [(''random_state'', random_state self), (''verbose'', PInt (- 1))],
                     Call_clone (Estimator b'),
                     Call_fit r X y (categorical_feature (cat_idx self)),
                     Call_dump_model r', Write_file tree_dict_path (json_dump L d),
                     Call_order_tree_model_dict d (cat_idx self), Call_GbmModel od],
                  files := (files w)(tree_dict_path \<mapsto> json_dump L d)\<rparr>),
              Raises (AttributeError ''NoneType'' ''update''))))
   \<and> (base_estimator self = Estimator b \<and>
       est_set_params L b [(''random_state'', random_state self), (''verbose'', PInt (- 1))] = Inr b' \<and>
       clone L (Estimator b') = Inr r \<and>
       est_fit L r X y (categorical_feature (cat_idx self)) = Inl e \<and>
       (cls_of self = MisicRegressor \<or>
        (\<exists>s s'. std_estimator self = Some s \<and> std_update L s X y None (cat_idx self) = Inr s')) \<longrightarrow>
        snd (fit L X y (self, w)) = Raises e)
   \<and> (regressor self = Some r \<and> est_predict L r X' = Inl e \<longrightarrow>
        predict L X' return_std scaled (self, w) =
          ((self, record_call (Call_predict r X') w), Raises e))"
proof (intro conjI impI)
  assume "base_estimator self = PyNone"
  then show "fit L X y (self, w) = ((self, w), Raises (AttributeError ''NoneType'' ''set_params''))"
    by (rule fit_no_base)
next
  assume a: "base_estimator self = Estimator b \<and> std_estimator self = None \<and>
       est_set_params L b [(''random_state'', random_state self), (''verbose'', PInt (- 1))] = Inr b' \<and>
       clone L (Estimator b') = Inr r"
    and c: "cls_of self = EntingRegressor"
  from a have "EntingRegressor_fit L X y (self, w) =
     ((set_regressor (Some r) (set_base_estimator (Estimator b') self),
       record_call (Call_clone (Estimator b'))
         (record_call (Call_set_params b
            [(''random_state'', random_state self), (''verbose'', PInt (- 1))]) w)),
      Raises (AttributeError ''NoneType'' ''update''))"
    by (intro EntingRegressor_fit_no_std) simp_all
  with c show "fit L X y (self, w) =
             ((set_regressor (Some r) (set_base_estimator (Estimator b') self),
               w\<lparr>calls := calls w @
                  [Call_set_params b [(''random_state'', random_state self), (''verbose'', PInt (- 1))],
                   Call_clone (Estimator b')]\<rparr>),
              Raises (AttributeError ''NoneType'' ''update''))"
    by (simp add: fit_def record_call_def)
next
  assume a: "base_estimator self = Estimator b \<and> std_estimator self = None \<and>
       est_set_params L b [(''random_state'', random_state self), (''verbose'', PInt (- 1))] = Inr b' \<and>
       clone L (Estimator b') = Inr r"
    and c: "cls_of self = MisicRegressor \<and>
            est_fit L r X y (categorical_feature (cat_idx self)) = Inr r' \<and>
            dump_model L r' = Inr d \<and> writable w tree_dict_path \<and>
            order_tree_model_dict L d (cat_idx self) = Inr od \<and> GbmModel L od = Inr g"
  from a c have "MisicRegressor_fit L X y (self, w) =
     ((set_regressor (Some r') (set_base_estimator (Estimator b') self),
       w\<lparr>calls := calls w @
            [Call_set_params b [(''random_state'', random_state self), (''verbose'', PInt (- 1))],
             Call_clone (Estimator b'),
             Call_fit r X y (categorical_feature (cat_idx self)),
             Call_dump_model r', Write_file tree_dict_path (json_dump L d),
             Call_order_tree_model_dict d (cat_idx self), Call_GbmModel od],
          files := (files w)(tree_dict_path \<mapsto> json_dump L d)\<rparr>),
      Raises (AttributeError ''NoneType'' ''update''))"
    by (intro MisicRegressor_fit_no_std) simp_all
  with c show "fit L X y (self, w) =
     ((set_regressor (Some r') (set_base_estimator (Estimator b') self),
       w\<lparr>calls := calls w @
            [Call_set_params b [(''random_state'', random_state self), (''verbose'', PInt (- 1))],
             Call_clone (Estimator b'),
             Call_fit r X y (categorical_feature (cat_idx self)),
             Call_dump_model r', Write_file tree_dict_path (json_dump L d),
             Call_order_tree_model_dict d (cat_idx self), Call_GbmModel od],
          files := (files w)(tree_dict_path \<mapsto> json_dump L d)\<rparr>),
      Raises (AttributeError ''NoneType'' ''update''))"
    by (simp add: fit_def)
next
  assume a: "base_estimator self = Estimator b \<and>
       est_set_params L b [(''random_state'', random_state self), (''verbose'', PInt (- 1))] = Inr b' \<and>
       clone L (Estimator b') = Inr r \<and>
       est_fit L r X y (categorical_feature (cat_idx self)) = Inl e \<and>
       (cls_of self = MisicRegressor \<or>
        (\<exists>s s'. std_estimator self = Some s \<and> std_update L s X y None (cat_idx self) = Inr s'))"
  show "snd (fit L X y (self, w)) = Raises e"
  proof (rule fit_propagates)
    show "base_estimator self = Estimator b" using a by simp
    show "est_set_params L b [(''random_state'', random_state self), (''verbose'', PInt (- 1))] = Inr b'"
      using a by simp
    show "clone L (Estimator b') = Inr r" using a by simp
    show "est_fit L r X y (categorical_feature (cat_idx self)) = Inl e" using a by simp
    show "\<exists>s s'. std_estimator self = Some s \<and> std_update L s X y None (cat_idx self) = Inr s'"
      if "cls_of self = EntingRegressor"
      using a that by auto
  qed
next
  assume "regressor self = Some r \<and> est_predict L r X' = Inl e"
  then show "predict L X' return_std scaled (self, w) =
          ((self, record_call (Call_predict r X') w), Raises e)"
    by (simp add: predict_propagates)
qed

theorem fit_missing_collaborator_witness:
  "base_estimator demo_no_base = PyNone
   \<and> fit demo_lib demo_X demo_y (demo_no_base, demo_world) =
       ((demo_no_base, demo_world), Raises (AttributeError ''NoneType'' ''set_params''))
   \<and> std_estimator demo_enting_no_std = None
   \<and> snd (fit demo_lib demo_X demo_y (demo_enting_no_std, demo_world)) =
       Raises (AttributeError ''NoneType'' ''update'')
   \<and> regressor (fst (fst (fit demo_lib demo_X demo_y (demo_enting_no_std, demo_world)))) =
       Some (Demo_est [(''random_state'', PInt 7), (''verbose'', PInt (- 1))] None)
   \<and> std_estimator demo_misic_no_std = None
   \<and> snd (fit demo_lib demo_X demo_y (demo_misic_no_std, demo_world)) =
       Raises (AttributeError ''NoneType'' ''update'')
   \<and> files (snd (fst (fit demo_lib demo_X demo_y (demo_misic_no_std, demo_world))))
        ''tree_dict_next.json'' = Some ''json trees''
   \<and> snd (fit demo_lib demo_X [1] (demo_enting, demo_world)) = Raises (OtherError ''ValueError'')
   \<and> snd (predict demo_lib demo_X False True
        (set_regressor (Some (Demo_est [] None)) demo_enting, demo_world)) = Raises NotFittedError"
proof -
  let ?ps = "[(''random_state'', PInt 7), (''verbose'', PInt (- 1))]"
  have 1: "base_estimator demo_no_base = PyNone"
    by (simp add: demo_run)
  have 2: "fit demo_lib demo_X demo_y (demo_no_base, demo_world) =
       ((demo_no_base, demo_world), Raises (AttributeError ''NoneType'' ''set_params''))"
    using fit_missing_collaborator [where self = demo_no_base and L = demo_lib and X = demo_X
        and y = demo_y and w = demo_world] 1
    by simp
  have 3: "std_estimator demo_enting_no_std = None"
    by (simp add: demo_run)
  have 4: "fit demo_lib demo_X demo_y (demo_enting_no_std, demo_world) =
       ((set_regressor (Some (Demo_est ?ps None))
           (set_base_estimator (Estimator (Demo_est ?ps None)) demo_enting_no_std),
         demo_world\<lparr>calls := calls demo_world @
            [Call_set_params demo_estimator ?ps, Call_clone (Estimator (Demo_est ?ps None))]\<rparr>),
        Raises (AttributeError ''NoneType'' ''update''))"
    using fit_missing_collaborator [where self = demo_enting_no_std and L = demo_lib
        and X = demo_X and y = demo_y and w = demo_world and b = demo_estimator
        and b' = "Demo_est ?ps None" and r = "Demo_est ?ps None"] 3
    by (simp add: demo_enting_no_std_def EntingRegressor_init_def demo_lib_sel demo_estimator_def)
  have 5: "files (snd (fst (fit demo_lib demo_X demo_y (demo_misic_no_std, demo_world))))
             ''tree_dict_next.json'' = Some ''json trees''
           \<and> snd (fit demo_lib demo_X demo_y (demo_misic_no_std, demo_world)) =
             Raises (AttributeError ''NoneType'' ''update'')"
    using fit_missing_collaborator [where self = demo_misic_no_std and L = demo_lib
        and X = demo_X and y = demo_y and w = demo_world and b = demo_estimator
        and b' = "Demo_est ?ps None" and r = "Demo_est ?ps None"
        and r' = "Demo_est ?ps (Some (demo_X, demo_y))" and d = "''trees''"
        and od = "''ordered trees''" and g = "''GbmModel ordered trees''"]
    by (simp add: demo_misic_no_std_def MisicRegressor_init_def demo_lib_def demo_estimator_def
        demo_X_def demo_y_def demo_world_def categorical_feature_def tree_dict_path_def)
  have 6: "snd (fit demo_lib demo_X [1] (demo_enting, demo_world)) = Raises (OtherError ''ValueError'')"
    using fit_missing_collaborator [where self = demo_enting and L = demo_lib
        and X = demo_X and y = "[1]" and w = demo_world and b = demo_estimator
        and b' = "Demo_est ?ps None" and r = "Demo_est ?ps None" and e = "OtherError ''ValueError''"]
    by (simp add: demo_enting_def EntingRegressor_init_def demo_lib_sel demo_estimator_def
        demo_X_def demo_std0_def categorical_feature_def)
  have 7: "snd (predict demo_lib demo_X False True
        (set_regressor (Some (Demo_est [] None)) demo_enting, demo_world)) = Raises NotFittedError"
    using fit_missing_collaborator [where self = "set_regressor (Some (Demo_est [] None)) demo_enting"
        and L = demo_lib and X' = demo_X and r = "Demo_est [] None" and e = NotFittedError
        and return_std = False and scaled = True and w = demo_world]
    by (simp add: demo_lib_sel)
  from 4 have 8: "snd (fit demo_lib demo_X demo_y (demo_enting_no_std, demo_world)) =
       Raises (AttributeError ''NoneType'' ''update'')"
     and 9: "regressor (fst (fst (fit demo_lib demo_X demo_y (demo_enting_no_std, demo_world)))) =
       Some (Demo_est ?ps None)"
    by simp_all
  have 10: "std_estimator demo_misic_no_std = None"
    by (simp add: demo_run)
  from 1 2 3 5 6 7 8 9 10 show ?thesis by simp
qed

end
